theory Spec2Isabelle
  imports Complex_Main "HOL-Library.Log_Nat"
begin

section \<open>JavaScript numbers\<close>

text \<open>
  The utilities under verification are TypeScript; every \<open>number\<close> is an IEEE binary64
  value. The counters and targets they read are \<open>integer\<close> columns of the store, hence
  integers that a double holds exactly. A value is either finite or one of the three
  special values; the type parameter records whether the finite part is an integer
  (a counter, a target, the result of \<open>Math.round\<close>) or a quotient.

  Not represented: the sign of zero (a divisor \<open>0\<close> is \<open>+0\<close>, as an integer read from
  the store is), overflow of the exponent range, and integers of magnitude \<open>2^53\<close> or
  more. Integer sums and differences are exact below \<open>2^53\<close>.
\<close>

datatype 'a js = Num 'a | Infinity | NegInfinity | NaN

type_synonym number = "rat js"
type_synonym rounded = "int js"

definition pow2 :: "int \<Rightarrow> rat" where
  "pow2 e = (if 0 \<le> e then 2 ^ nat e else 1 / 2 ^ nat (- e))"

definition round_half_even :: "rat \<Rightarrow> int" where
  "round_half_even x =
     (let f = \<lfloor>x\<rfloor>; d = x - of_int f
      in if d < 1 / 2 then f else if 1 / 2 < d then f + 1 else if even f then f else f + 1)"

text \<open>\<open>binade x\<close> is the exponent \<open>e\<close> with \<open>2^e \<le> |x| < 2^(e+1)\<close>, for \<open>x \<noteq> 0\<close>.\<close>

definition binade :: "rat \<Rightarrow> int" where
  "binade x =
     (let p = fst (quotient_of \<bar>x\<bar>); q = snd (quotient_of \<bar>x\<bar>); e = bitlen p - bitlen q
      in if pow2 e \<le> \<bar>x\<bar> then e else e - 1)"

text \<open>
  \<open>fl x\<close> is the double nearest to \<open>x\<close>: 53 significant bits, ties to the even
  significand. Division and multiplication of doubles return \<open>fl\<close> of the exact result.
\<close>

definition fl :: "rat \<Rightarrow> rat" where
  "fl x = (if x = 0 then 0
           else let e = binade x - 52 in of_int (round_half_even (x / pow2 e)) * pow2 e)"

text \<open>\<open>a / b\<close> on integer-valued operands.\<close>

fun js_divide :: "rounded \<Rightarrow> rounded \<Rightarrow> number" where
  "js_divide NaN _ = NaN"
| "js_divide _ NaN = NaN"
| "js_divide (Num a) (Num b) =
     (if b = 0 then (if a = 0 then NaN else if 0 < a then Infinity else NegInfinity)
      else Num (fl (of_int a / of_int b)))"
| "js_divide (Num a) _ = Num 0"
| "js_divide Infinity (Num b) = (if 0 \<le> b then Infinity else NegInfinity)"
| "js_divide NegInfinity (Num b) = (if 0 \<le> b then NegInfinity else Infinity)"
| "js_divide _ _ = NaN"

text \<open>\<open>x * n\<close> for a double \<open>x\<close> and an integer-valued \<open>n\<close>.\<close>

fun js_times :: "number \<Rightarrow> rounded \<Rightarrow> number" where
  "js_times NaN _ = NaN"
| "js_times _ NaN = NaN"
| "js_times (Num a) (Num b) = Num (fl (a * of_int b))"
| "js_times (Num a) Infinity = (if a = 0 then NaN else if 0 < a then Infinity else NegInfinity)"
| "js_times (Num a) NegInfinity = (if a = 0 then NaN else if 0 < a then NegInfinity else Infinity)"
| "js_times Infinity (Num b) = (if b = 0 then NaN else if 0 < b then Infinity else NegInfinity)"
| "js_times NegInfinity (Num b) = (if b = 0 then NaN else if 0 < b then NegInfinity else Infinity)"
| "js_times Infinity Infinity = Infinity"
| "js_times NegInfinity NegInfinity = Infinity"
| "js_times _ _ = NegInfinity"

fun js_plus :: "rounded \<Rightarrow> rounded \<Rightarrow> rounded" where
  "js_plus NaN _ = NaN"
| "js_plus _ NaN = NaN"
| "js_plus (Num a) (Num b) = Num (a + b)"
| "js_plus Infinity NegInfinity = NaN"
| "js_plus NegInfinity Infinity = NaN"
| "js_plus (Num a) y = y"
| "js_plus x _ = x"

fun js_negate :: "rounded \<Rightarrow> rounded" where
  "js_negate (Num a) = Num (- a)"
| "js_negate Infinity = NegInfinity"
| "js_negate NegInfinity = Infinity"
| "js_negate NaN = NaN"

definition js_minus :: "rounded \<Rightarrow> rounded \<Rightarrow> rounded" where
  "js_minus x y = js_plus x (js_negate y)"

text \<open>\<open>Math.round\<close>: the nearest integer, a tie going to the larger one.\<close>

fun Math_round :: "number \<Rightarrow> rounded" where
  "Math_round (Num x) = Num \<lfloor>x + 1 / 2\<rfloor>"
| "Math_round Infinity = Infinity"
| "Math_round NegInfinity = NegInfinity"
| "Math_round NaN = NaN"

text \<open>The relational operators: every comparison with \<open>NaN\<close> is false.\<close>

fun js_lt :: "'a::linorder js \<Rightarrow> 'a js \<Rightarrow> bool" where
  "js_lt NaN _ = False"
| "js_lt _ NaN = False"
| "js_lt (Num a) (Num b) = (a < b)"
| "js_lt Infinity _ = False"
| "js_lt _ NegInfinity = False"
| "js_lt _ _ = True"

definition js_gt :: "'a::linorder js \<Rightarrow> 'a js \<Rightarrow> bool" where
  "js_gt x y = js_lt y x"

fun js_le :: "'a::linorder js \<Rightarrow> 'a js \<Rightarrow> bool" where
  "js_le NaN _ = False"
| "js_le _ NaN = False"
| "js_le x y = (\<not> js_lt y x)"

section \<open>Performance categories (\<open>utils/performanceCategories.ts\<close>)\<close>

record PerformanceCategory =
  name :: string
  color :: string
  bgColor :: string
  textColor :: string
  range' :: string

definition performanceCategories :: "PerformanceCategory list" where
  "performanceCategories =
     [\<lparr>name = ''Critical'', color = ''#EF4444'', bgColor = ''bg-red-100'',
       textColor = ''text-red-800'', range' = ''0-66%''\<rparr>,
      \<lparr>name = ''Bad'', color = ''#F59E0B'', bgColor = ''bg-amber-100'',
       textColor = ''text-amber-800'', range' = ''67-83%''\<rparr>,
      \<lparr>name = ''Target'', color = ''#10B981'', bgColor = ''bg-emerald-100'',
       textColor = ''text-emerald-800'', range' = ''84-119%''\<rparr>,
      \<lparr>name = ''Good'', color = ''#3B82F6'', bgColor = ''bg-blue-100'',
       textColor = ''text-blue-800'', range' = ''120%+''\<rparr>]"

definition getPerformanceCategory :: "rounded \<Rightarrow> PerformanceCategory" where
  "getPerformanceCategory achievementPercentage =
     (if js_le achievementPercentage (Num 66) then performanceCategories ! 0
      else if js_le achievementPercentage (Num 83) then performanceCategories ! 1
      else if js_le achievementPercentage (Num 119) then performanceCategories ! 2
      else performanceCategories ! 3)"

section \<open>Records of the store (\<open>lib/supabase.ts\<close>)\<close>

text \<open>
  The field \<open>id\<close> of each TypeScript type is renamed, since two records of one theory
  cannot share a field name. Records are compared by value.
\<close>

record Analyst =
  analyst_key :: string
  analyst_name :: string
  email :: string
  hire_date :: string
  department :: string
  status :: string

record PerformanceRecord =
  record_id :: string
  analyst_id :: string
  month :: string
  year :: int
  outreaches :: int
  live_links :: int
  high_da_links :: int
  content_distribution :: int
  new_blogs :: int
  blog_optimizations :: int
  top_5_keywords :: int
  created_at :: string
  updated_at :: string

record KPITarget =
  target_id :: string
  kpi_name :: string
  monthly_target :: int
  annual_target :: int
  role :: string
  target_created_at :: string

text \<open>
  The seven metric keys. The code holds them as strings and reads a counter with
  \<open>record[kpiName as keyof PerformanceRecord] as number\<close>; the model names the seven
  keys by a datatype, \<open>kpi_key\<close> gives the string and \<open>kpi_value\<close> the counter.
\<close>

datatype KpiName =
  Outreaches | Live_links | High_da_links | Content_distribution | New_blogs |
  Blog_optimizations | Top_5_keywords

fun kpi_key :: "KpiName \<Rightarrow> string" where
  "kpi_key Outreaches = ''outreaches''"
| "kpi_key Live_links = ''live_links''"
| "kpi_key High_da_links = ''high_da_links''"
| "kpi_key Content_distribution = ''content_distribution''"
| "kpi_key New_blogs = ''new_blogs''"
| "kpi_key Blog_optimizations = ''blog_optimizations''"
| "kpi_key Top_5_keywords = ''top_5_keywords''"

fun kpi_value :: "PerformanceRecord \<Rightarrow> KpiName \<Rightarrow> int" where
  "kpi_value r Outreaches = outreaches r"
| "kpi_value r Live_links = live_links r"
| "kpi_value r High_da_links = high_da_links r"
| "kpi_value r Content_distribution = content_distribution r"
| "kpi_value r New_blogs = new_blogs r"
| "kpi_value r Blog_optimizations = blog_optimizations r"
| "kpi_value r Top_5_keywords = top_5_keywords r"

definition kpiNames :: "KpiName list" where
  "kpiNames = [Outreaches, Live_links, High_da_links, Content_distribution, New_blogs,
               Blog_optimizations, Top_5_keywords]"

section \<open>Strings\<close>

definition digit_char :: "nat \<Rightarrow> char" where
  "digit_char d = ''0123456789'' ! d"

function show_nat :: "nat \<Rightarrow> string" where
  "show_nat n = (if n < 10 then [digit_char n] else show_nat (n div 10) @ [digit_char (n mod 10)])"
  by pat_completeness auto
termination
  by (relation "measure id") auto

declare show_nat.simps [simp del]

text \<open>
  The string of a number inside a template literal, for an integer-valued number (below
  \<open>10^21\<close>, where JavaScript changes to the exponent notation) and the special values.
\<close>

fun toString :: "rounded \<Rightarrow> string" where
  "toString (Num i) = (if i < 0 then ''-'' @ show_nat (nat (- i)) else show_nat (nat i))"
| "toString Infinity = ''Infinity''"
| "toString NegInfinity = ''-Infinity''"
| "toString NaN = ''NaN''"

definition lower_char :: "char \<Rightarrow> char" where
  "lower_char c =
     (let n = (of_char c :: nat) in if 65 \<le> n \<and> n \<le> 90 then char_of (n + 32) else c)"

text \<open>\<open>String.prototype.toLowerCase\<close> on ASCII text.\<close>

definition toLowerCase :: "string \<Rightarrow> string" where
  "toLowerCase s = map lower_char s"

text \<open>
  \<open>parseInt\<close> with no radix argument: white space is skipped, then an optional sign,
  then a \<open>0x\<close> prefix selects radix 16, and the longest prefix of digits is read;
  the result is \<open>NaN\<close> when there is no digit.
\<close>

definition is_space :: "char \<Rightarrow> bool" where
  "is_space c = ((of_char c :: nat) \<in> {9, 10, 11, 12, 13, 32})"

definition digit_of :: "nat \<Rightarrow> char \<Rightarrow> nat option" where
  "digit_of radix c =
     (let n = (of_char c :: nat);
          d = (if 48 \<le> n \<and> n \<le> 57 then n - 48
               else if 97 \<le> n \<and> n \<le> 122 then n - 87
               else if 65 \<le> n \<and> n \<le> 90 then n - 55
               else radix)
      in if d < radix then Some d else None)"

fun parse_digits :: "nat \<Rightarrow> string \<Rightarrow> int option \<Rightarrow> int option" where
  "parse_digits radix [] acc = acc"
| "parse_digits radix (c # cs) acc =
     (case digit_of radix c of
        None \<Rightarrow> acc
      | Some d \<Rightarrow>
          parse_digits radix cs
            (Some ((case acc of None \<Rightarrow> 0 | Some a \<Rightarrow> a) * int radix + int d)))"

definition parseInt :: "string \<Rightarrow> rounded" where
  "parseInt s =
     (let s1 = dropWhile is_space s;
          negative = (take 1 s1 = ''-'');
          s2 = (if take 1 s1 = ''-'' \<or> take 1 s1 = ''+'' then drop 1 s1 else s1);
          hex = (take 2 s2 = ''0x'' \<or> take 2 s2 = ''0X'');
          digits = (if hex then parse_digits 16 (drop 2 s2) None else parse_digits 10 s2 None)
      in case digits of
           None \<Rightarrow> NaN
         | Some v \<Rightarrow> Num (if negative then - v else v))"

section \<open>Dates\<close>

text \<open>
  \<open>new Date(year, monthIndex).getTime()\<close>, after the ECMAScript definitions of
  MakeFullYear, MakeDay, MakeDate and TimeClip: the milliseconds since the epoch of the
  first day of the month, \<open>NaN\<close> for an argument that is not finite or a time out of
  range. A year from 0 to 99 stands for 1900 to 1999, and a month index outside 0 to 11
  carries into the year. The local time zone is taken to be UTC.
\<close>

definition DayFromYear :: "int \<Rightarrow> int" where
  "DayFromYear y =
     365 * (y - 1970) + (y - 1969) div 4 - (y - 1901) div 100 + (y - 1601) div 400"

definition InLeapYear :: "int \<Rightarrow> bool" where
  "InLeapYear y = (y mod 4 = 0 \<and> y mod 100 \<noteq> 0 \<or> y mod 400 = 0)"

text \<open>The number of days of a common year before each of its months.\<close>

definition days_before_month :: "int list" where
  "days_before_month = [0, 31, 59, 90, 120, 151, 181, 212, 243, 273, 304, 334]"

definition MakeDay :: "int \<Rightarrow> int \<Rightarrow> int" where
  "MakeDay y m =
     (let ym = y + m div 12; mn = nat (m mod 12)
      in DayFromYear ym + days_before_month ! mn
         + (if InLeapYear ym \<and> 2 \<le> mn then 1 else 0))"

fun Date_getTime :: "rounded \<Rightarrow> rounded \<Rightarrow> rounded" where
  "Date_getTime (Num y) (Num m) =
     (let t = MakeDay (if 0 \<le> y \<and> y \<le> 99 then 1900 + y else y) m * 86400000
      in if \<bar>t\<bar> \<le> 8640000000000000 then Num t else NaN)"
| "Date_getTime _ _ = NaN"

section \<open>Sorting\<close>

text \<open>
  \<open>Array.prototype.sort\<close> with a comparator is a stable sort: \<open>x\<close> is placed after
  \<open>y\<close> only if the comparator is positive on \<open>(x, y)\<close>, and a comparator value
  \<open>NaN\<close> counts as zero. For a comparator that is a consistent ordering the result is
  fixed by that; it is computed here by insertion.
\<close>

fun insert_by :: "('a \<Rightarrow> 'a \<Rightarrow> rounded) \<Rightarrow> 'a \<Rightarrow> 'a list \<Rightarrow> 'a list" where
  "insert_by cmp x [] = [x]"
| "insert_by cmp x (y # ys) =
     (if js_gt (cmp x y) (Num 0) then y # insert_by cmp x ys else x # y # ys)"

definition Array_sort :: "('a \<Rightarrow> 'a \<Rightarrow> rounded) \<Rightarrow> 'a list \<Rightarrow> 'a list" where
  "Array_sort cmp xs = foldr (insert_by cmp) xs []"

section \<open>The recommendation table (\<open>KPI_RECOMMENDATIONS\<close>)\<close>

text \<open>
  An object literal is a finite map from property names to values; reading a property
  that is absent gives \<open>undefined\<close>, here \<open>None\<close>. The table has one row for each
  metric key and in each row one cell for each lower-case category name.
\<close>

record Recommendation =
  cell_title :: string
  cell_recommendations :: "string list"

type_synonym recommendation_table = "string \<rightharpoonup> (string \<rightharpoonup> Recommendation)"

definition outreaches_critical :: Recommendation where
  "outreaches_critical =
     \<lparr>cell_title = ''Outreach Performance Critical - Immediate Action Required'',
      cell_recommendations =
       [''Review and update outreach templates for better engagement'',
        ''Analyze competitor outreach strategies and adapt successful approaches'',
        ''Implement automated outreach tools to increase volume'',
        ''Schedule daily outreach blocks (2-3 hours minimum)'',
        ''Create personalized outreach sequences for different prospect types'',
        ''Review and expand prospect database with high-quality targets'']\<rparr>"

definition outreaches_bad :: Recommendation where
  "outreaches_bad =
     \<lparr>cell_title = ''Outreach Performance Below Target - Needs Improvement'',
      cell_recommendations =
       [''A/B test different subject lines and email templates'',
        ''Increase daily outreach target by 25%'',
        ''Focus on building relationships before pitching'',
        ''Research prospects more thoroughly for personalization'',
        ''Follow up consistently with previous outreach attempts'']\<rparr>"

definition outreaches_target :: Recommendation where
  "outreaches_target =
     \<lparr>cell_title = ''Outreach Performance On Track - Maintain Momentum'',
      cell_recommendations =
       [''Continue current outreach strategies'',
        ''Document successful outreach templates for team sharing'',
        ''Explore new outreach channels (LinkedIn, Twitter, etc.)'',
        ''Build relationships with key industry contacts'']\<rparr>"

definition outreaches_good :: Recommendation where
  "outreaches_good =
     \<lparr>cell_title = ''Excellent Outreach Performance - Scale Success'',
      cell_recommendations =
       [''Share successful strategies with team members'',
        ''Mentor other analysts on outreach best practices'',
        ''Explore premium outreach opportunities'',
        ''Focus on building long-term industry relationships'']\<rparr>"

definition outreaches_row :: "string \<rightharpoonup> Recommendation" where
  "outreaches_row =
     map_of [(''critical'', outreaches_critical), (''bad'', outreaches_bad),
             (''target'', outreaches_target), (''good'', outreaches_good)]"

definition live_links_critical :: Recommendation where
  "live_links_critical =
     \<lparr>cell_title = ''Link Acquisition Critical - Immediate Intervention Required'',
      cell_recommendations =
       [''Review outreach-to-link conversion rates and identify bottlenecks'',
        ''Focus on relationship building before link requests'',
        ''Improve content quality to increase link-worthy assets'',
        ''Analyze successful link placements and replicate approach'',
        ''Consider guest posting opportunities for easier link acquisition'',
        ''Schedule weekly follow-ups with promising prospects'']\<rparr>"

definition live_links_bad :: Recommendation where
  "live_links_bad =
     \<lparr>cell_title = ''Link Acquisition Below Target - Strategy Review Needed'',
      cell_recommendations =
       [''Analyze rejection reasons and address common objections'',
        ''Improve value proposition in outreach messages'',
        ''Focus on building relationships before asking for links'',
        ''Create more linkable assets (infographics, studies, tools)'',
        ''Target lower-competition, niche-specific opportunities'']\<rparr>"

definition live_links_target :: Recommendation where
  "live_links_target =
     \<lparr>cell_title = ''Link Acquisition On Target - Optimize for Quality'',
      cell_recommendations =
       [''Maintain current link building strategies'',
        ''Focus on acquiring higher authority links'',
        ''Build relationships for future link opportunities'',
        ''Document successful link building tactics'']\<rparr>"

definition live_links_good :: Recommendation where
  "live_links_good =
     \<lparr>cell_title = ''Outstanding Link Acquisition - Maximize Impact'',
      cell_recommendations =
       [''Focus on high-authority, industry-leading publications'',
        ''Develop thought leadership content for premium placements'',
        ''Build strategic partnerships for ongoing link opportunities'',
        ''Share successful link building strategies with team'']\<rparr>"

definition live_links_row :: "string \<rightharpoonup> Recommendation" where
  "live_links_row =
     map_of [(''critical'', live_links_critical), (''bad'', live_links_bad),
             (''target'', live_links_target), (''good'', live_links_good)]"

definition high_da_links_critical :: Recommendation where
  "high_da_links_critical =
     \<lparr>cell_title = ''High DA Link Acquisition Critical - Strategic Overhaul Needed'',
      cell_recommendations =
       [''Research and target top-tier publications in your industry'',
        ''Develop thought leadership content worthy of high-DA sites'',
        ''Build relationships with editors at major publications'',
        ''Create comprehensive, data-driven content that attracts high-DA links'',
        ''Consider HARO (Help a Reporter Out) for media opportunities'',
        ''Analyze competitors' high-DA backlinks for targeting ideas'']\<rparr>"

definition high_da_links_bad :: Recommendation where
  "high_da_links_bad =
     \<lparr>cell_title = ''High DA Links Below Target - Quality Focus Required'',
      cell_recommendations =
       [''Prioritize relationship building with high-authority site editors'',
        ''Create exceptional, newsworthy content'',
        ''Participate in industry events and conferences for networking'',
        ''Develop original research and data studies'',
        ''Focus on fewer, higher-quality outreach attempts'']\<rparr>"

definition high_da_links_target :: Recommendation where
  "high_da_links_target =
     \<lparr>cell_title = ''High DA Link Performance On Track - Maintain Standards'',
      cell_recommendations =
       [''Continue targeting high-authority publications'',
        ''Maintain relationships with key industry contacts'',
        ''Focus on creating exceptional, shareable content'',
        ''Document successful high-DA link strategies'']\<rparr>"

definition high_da_links_good :: Recommendation where
  "high_da_links_good =
     \<lparr>cell_title = ''Exceptional High DA Link Performance - Industry Leadership'',
      cell_recommendations =
       [''Establish yourself as a thought leader in the industry'',
        ''Speak at conferences and industry events'',
        ''Develop strategic partnerships with major publications'',
        ''Mentor team members on high-DA link acquisition'']\<rparr>"

definition high_da_links_row :: "string \<rightharpoonup> Recommendation" where
  "high_da_links_row =
     map_of [(''critical'', high_da_links_critical), (''bad'', high_da_links_bad),
             (''target'', high_da_links_target), (''good'', high_da_links_good)]"

definition content_distribution_critical :: Recommendation where
  "content_distribution_critical =
     \<lparr>cell_title = ''Content Distribution Critical - Multi-Channel Strategy Needed'',
      cell_recommendations =
       [''Audit current distribution channels and identify gaps'',
        ''Develop a comprehensive content distribution calendar'',
        ''Automate social media posting with scheduling tools'',
        ''Build email lists for content promotion'',
        ''Engage with industry communities and forums'',
        ''Repurpose content for different platforms and formats'']\<rparr>"

definition content_distribution_bad :: Recommendation where
  "content_distribution_bad =
     \<lparr>cell_title = ''Content Distribution Below Target - Channel Expansion Required'',
      cell_recommendations =
       [''Increase posting frequency across all channels'',
        ''Explore new distribution platforms (Reddit, Quora, industry forums)'',
        ''Build relationships with influencers for content amplification'',
        ''Create platform-specific content variations'',
        ''Implement content syndication strategies'']\<rparr>"

definition content_distribution_target :: Recommendation where
  "content_distribution_target =
     \<lparr>cell_title = ''Content Distribution On Track - Optimize Engagement'',
      cell_recommendations =
       [''Focus on improving engagement rates on existing channels'',
        ''Analyze best-performing content and replicate success'',
        ''Build community around your content'',
        ''Experiment with new content formats'']\<rparr>"

definition content_distribution_good :: Recommendation where
  "content_distribution_good =
     \<lparr>cell_title = ''Excellent Content Distribution - Maximize Reach'',
      cell_recommendations =
       [''Develop strategic partnerships for content amplification'',
        ''Create viral-worthy content campaigns'',
        ''Build thought leadership through consistent, valuable content'',
        ''Share distribution strategies with team members'']\<rparr>"

definition content_distribution_row :: "string \<rightharpoonup> Recommendation" where
  "content_distribution_row =
     map_of [(''critical'', content_distribution_critical), (''bad'', content_distribution_bad),
             (''target'', content_distribution_target), (''good'', content_distribution_good)]"

definition new_blogs_critical :: Recommendation where
  "new_blogs_critical =
     \<lparr>cell_title = ''Blog Content Creation Critical - Production Ramp-Up Required'',
      cell_recommendations =
       [''Develop a structured content calendar with daily writing goals'',
        ''Use content templates to speed up creation process'',
        ''Repurpose existing content into new blog formats'',
        ''Collaborate with subject matter experts for faster content creation'',
        ''Implement content batching techniques'',
        ''Consider outsourcing research to focus on writing'']\<rparr>"

definition new_blogs_bad :: Recommendation where
  "new_blogs_bad =
     \<lparr>cell_title = ''Blog Creation Below Target - Workflow Optimization Needed'',
      cell_recommendations =
       [''Streamline content creation workflow'',
        ''Create content templates for common topics'',
        ''Batch similar content creation tasks'',
        ''Set daily writing goals and track progress'',
        ''Use AI tools to assist with research and outlining'']\<rparr>"

definition new_blogs_target :: Recommendation where
  "new_blogs_target =
     \<lparr>cell_title = ''Blog Creation On Track - Quality Focus'',
      cell_recommendations =
       [''Maintain current content creation pace'',
        ''Focus on improving content quality and depth'',
        ''Optimize content for search engines'',
        ''Track content performance and iterate'']\<rparr>"

definition new_blogs_good :: Recommendation where
  "new_blogs_good =
     \<lparr>cell_title = ''Outstanding Blog Production - Content Leadership'',
      cell_recommendations =
       [''Focus on creating comprehensive, authoritative content'',
        ''Develop content series and pillar pages'',
        ''Share content creation best practices with team'',
        ''Explore advanced content formats (interactive, multimedia)'']\<rparr>"

definition new_blogs_row :: "string \<rightharpoonup> Recommendation" where
  "new_blogs_row =
     map_of [(''critical'', new_blogs_critical), (''bad'', new_blogs_bad),
             (''target'', new_blogs_target), (''good'', new_blogs_good)]"

definition blog_optimizations_critical :: Recommendation where
  "blog_optimizations_critical =
     \<lparr>cell_title = ''Blog Optimization Critical - Technical SEO Audit Required'',
      cell_recommendations =
       [''Conduct comprehensive technical SEO audit of existing content'',
        ''Prioritize optimization of highest-traffic pages first'',
        ''Update meta titles, descriptions, and header tags'',
        ''Improve internal linking structure'',
        ''Optimize page loading speeds and mobile responsiveness'',
        ''Add schema markup to improve search visibility'']\<rparr>"

definition blog_optimizations_bad :: Recommendation where
  "blog_optimizations_bad =
     \<lparr>cell_title = ''Blog Optimization Below Target - Systematic Approach Needed'',
      cell_recommendations =
       [''Create optimization checklist and follow systematically'',
        ''Focus on pages with highest potential impact'',
        ''Update outdated content with fresh information'',
        ''Improve keyword targeting and content structure'',
        ''Add relevant internal and external links'']\<rparr>"

definition blog_optimizations_target :: Recommendation where
  "blog_optimizations_target =
     \<lparr>cell_title = ''Blog Optimization On Track - Maintain Quality'',
      cell_recommendations =
       [''Continue systematic optimization approach'',
        ''Monitor optimization impact on search rankings'',
        ''Focus on user experience improvements'',
        ''Document successful optimization strategies'']\<rparr>"

definition blog_optimizations_good :: Recommendation where
  "blog_optimizations_good =
     \<lparr>cell_title = ''Excellent Blog Optimization - Advanced Techniques'',
      cell_recommendations =
       [''Implement advanced SEO techniques (topic clusters, semantic SEO)'',
        ''Focus on featured snippet optimization'',
        ''Develop comprehensive content hubs'',
        ''Share optimization expertise with team members'']\<rparr>"

definition blog_optimizations_row :: "string \<rightharpoonup> Recommendation" where
  "blog_optimizations_row =
     map_of [(''critical'', blog_optimizations_critical), (''bad'', blog_optimizations_bad),
             (''target'', blog_optimizations_target), (''good'', blog_optimizations_good)]"

definition top_5_keywords_critical :: Recommendation where
  "top_5_keywords_critical =
     \<lparr>cell_title = ''Keyword Rankings Critical - SEO Strategy Overhaul Required'',
      cell_recommendations =
       [''Conduct comprehensive keyword research and competitive analysis'',
        ''Audit current content for keyword optimization opportunities'',
        ''Develop targeted content for priority keywords'',
        ''Improve technical SEO foundation (site speed, mobile, crawlability)'',
        ''Build topical authority through comprehensive content coverage'',
        ''Analyze SERP features and optimize for featured snippets'']\<rparr>"

definition top_5_keywords_bad :: Recommendation where
  "top_5_keywords_bad =
     \<lparr>cell_title = ''Keyword Rankings Below Target - Focused Optimization Required'',
      cell_recommendations =
       [''Prioritize optimization of pages closest to top 5 rankings'',
        ''Improve content quality and comprehensiveness'',
        ''Build more relevant backlinks to target pages'',
        ''Optimize for user intent and search experience'',
        ''Monitor competitor strategies and adapt successful tactics'']\<rparr>"

definition top_5_keywords_target :: Recommendation where
  "top_5_keywords_target =
     \<lparr>cell_title = ''Keyword Rankings On Track - Maintain Momentum'',
      cell_recommendations =
       [''Continue current keyword optimization strategies'',
        ''Monitor rankings closely and defend positions'',
        ''Expand content around successful keywords'',
        ''Build authority through consistent, quality content'']\<rparr>"

definition top_5_keywords_good :: Recommendation where
  "top_5_keywords_good =
     \<lparr>cell_title = ''Outstanding Keyword Performance - Expand Dominance'',
      cell_recommendations =
       [''Target more competitive, high-value keywords'',
        ''Develop comprehensive topic clusters'',
        ''Build thought leadership around key topics'',
        ''Share keyword strategy insights with team'']\<rparr>"

definition top_5_keywords_row :: "string \<rightharpoonup> Recommendation" where
  "top_5_keywords_row =
     map_of [(''critical'', top_5_keywords_critical), (''bad'', top_5_keywords_bad),
             (''target'', top_5_keywords_target), (''good'', top_5_keywords_good)]"

definition KPI_RECOMMENDATIONS :: recommendation_table where
  "KPI_RECOMMENDATIONS =
     map_of
       [(''outreaches'', outreaches_row),
        (''live_links'', live_links_row),
        (''high_da_links'', high_da_links_row),
        (''content_distribution'', content_distribution_row),
        (''new_blogs'', new_blogs_row),
        (''blog_optimizations'', blog_optimizations_row),
        (''top_5_keywords'', top_5_keywords_row)]"

section \<open>Trend analysis and action items (\<open>utils/actionItemsGenerator.ts\<close>)\<close>

record ActionItem =
  item_id :: string
  kpi :: string
  severity :: string
  title :: string
  description :: string
  recommendations :: "string list"
  priority :: int

record PerformanceTrend =
  trend_kpi :: string
  current :: int
  previous :: int
  trend :: string
  changePercentage :: rounded

text \<open>
  The time of a record, \<open>new Date(a.year, parseInt(a.month) - 1).getTime()\<close>, and the
  comparator of \<open>analyzeTrend\<close>: the later date first.
\<close>

definition record_time :: "PerformanceRecord \<Rightarrow> rounded" where
  "record_time a = Date_getTime (Num (year a)) (js_minus (parseInt (month a)) (Num 1))"

definition compare_dates :: "PerformanceRecord \<Rightarrow> PerformanceRecord \<Rightarrow> rounded" where
  "compare_dates a b =
     (let aDate = record_time a; bDate = record_time b in js_minus bDate aDate)"

definition analyzeTrend ::
  "KpiName \<Rightarrow> PerformanceRecord \<Rightarrow> PerformanceRecord list \<Rightarrow> PerformanceTrend" where
  "analyzeTrend kpiName currentRecord previousRecords =
     (let currentValue = kpi_value currentRecord kpiName;
          sortedPrevious =
            Array_sort compare_dates
              (filter (\<lambda>record. analyst_id record = analyst_id currentRecord) previousRecords);
          previousValue =
            (case sortedPrevious of
               [] \<Rightarrow> 0
             | previousRecord # _ \<Rightarrow> kpi_value previousRecord kpiName)
      in if 0 < previousValue then
           (let changePercentage =
                  Math_round
                    (js_times
                       (js_divide (js_minus (Num currentValue) (Num previousValue))
                          (Num previousValue))
                       (Num 100))
            in \<lparr>trend_kpi = kpi_key kpiName, current = currentValue, previous = previousValue,
                trend = (if js_gt changePercentage (Num 5) then ''improving''
                         else if js_lt changePercentage (Num (- 5)) then ''declining''
                         else ''stable''),
                changePercentage = changePercentage\<rparr>)
         else if 0 < currentValue then
           \<lparr>trend_kpi = kpi_key kpiName, current = currentValue, previous = previousValue,
            trend = ''improving'', changePercentage = Num 100\<rparr>
         else
           \<lparr>trend_kpi = kpi_key kpiName, current = currentValue, previous = previousValue,
            trend = ''stable'', changePercentage = Num 0\<rparr>)"

text \<open>
  On arguments of the declared types the only way the body of the loop of
  \<open>generateActionItems\<close> can throw is a property read on \<open>undefined\<close>: the read of a
  cell in a row that the table does not have.
\<close>

datatype error = TypeError

text \<open>The \<open>switch\<close> on the category name, with the initial values as its default.\<close>

definition severity_of :: "string \<Rightarrow> string" where
  "severity_of categoryName =
     (if categoryName = ''Critical'' then ''critical''
      else if categoryName = ''Bad'' then ''warning''
      else if categoryName = ''Target'' then ''info''
      else if categoryName = ''Good'' then ''success''
      else ''info'')"

definition priority_of :: "string \<Rightarrow> int" where
  "priority_of categoryName =
     (if categoryName = ''Critical'' then 1
      else if categoryName = ''Bad'' then 2
      else if categoryName = ''Target'' then 3
      else if categoryName = ''Good'' then 4
      else 3)"

definition achievement :: "int \<Rightarrow> int \<Rightarrow> rounded" where
  "achievement actual targetValue =
     Math_round (js_times (js_divide (Num actual) (Num targetValue)) (Num 100))"

definition describe :: "int \<Rightarrow> int \<Rightarrow> rounded \<Rightarrow> PerformanceTrend \<Rightarrow> string" where
  "describe currentValue targetValue achievementPercentage t =
     ''Current: '' @ toString (Num currentValue) @ '' | Target: '' @ toString (Num targetValue)
     @ '' | Achievement: '' @ toString achievementPercentage @ ''% | Trend: '' @ trend t
     @ '' ('' @ (if js_gt (changePercentage t) (Num 0) then ''+'' else [])
     @ toString (changePercentage t) @ ''%)''"

text \<open>
  One round of \<open>kpiNames.forEach\<close>: the list of action items after the round, or the
  error thrown in it. The table is a parameter; the code uses \<open>KPI_RECOMMENDATIONS\<close>.
\<close>

definition process_kpi ::
  "recommendation_table \<Rightarrow> PerformanceRecord \<Rightarrow> PerformanceRecord list \<Rightarrow> KPITarget list \<Rightarrow>
   ActionItem list \<Rightarrow> KpiName \<Rightarrow> error + ActionItem list" where
  "process_kpi table currentRecord previousRecords targets actionItems kpiName =
     (case find (\<lambda>t. kpi_name t = kpi_key kpiName) targets of
        None \<Rightarrow> Inr actionItems
      | Some target \<Rightarrow>
          (let currentValue = kpi_value currentRecord kpiName;
               achievementPercentage = achievement currentValue (monthly_target target);
               category = getPerformanceCategory achievementPercentage;
               t = analyzeTrend kpiName currentRecord previousRecords
           in case table (kpi_key kpiName) of
                None \<Rightarrow> Inl TypeError
              | Some kpiRecommendations \<Rightarrow>
                  (case kpiRecommendations (toLowerCase (name category)) of
                     None \<Rightarrow> Inr actionItems
                   | Some categoryRecommendations \<Rightarrow>
                       Inr (actionItems @
                         [\<lparr>item_id = kpi_key kpiName @ ''-'' @ record_id currentRecord,
                           kpi = kpi_key kpiName,
                           severity = severity_of (name category),
                           title = cell_title categoryRecommendations,
                           description =
                             describe currentValue (monthly_target target)
                               achievementPercentage t,
                           recommendations = cell_recommendations categoryRecommendations,
                           priority =
                             (if trend t = ''declining'' \<and> name category \<noteq> ''Good''
                              then max 1 (priority_of (name category) - 1)
                              else priority_of (name category))\<rparr>]))))"

fun forEach :: "('s \<Rightarrow> 'a \<Rightarrow> error + 's) \<Rightarrow> 's \<Rightarrow> 'a list \<Rightarrow> error + 's" where
  "forEach f s [] = Inr s"
| "forEach f s (x # xs) = (case f s x of Inl e \<Rightarrow> Inl e | Inr s' \<Rightarrow> forEach f s' xs)"

definition compare_priority :: "ActionItem \<Rightarrow> ActionItem \<Rightarrow> rounded" where
  "compare_priority a b = Num (priority a - priority b)"

definition generateActionItemsWith ::
  "recommendation_table \<Rightarrow> PerformanceRecord \<Rightarrow> PerformanceRecord list \<Rightarrow> KPITarget list \<Rightarrow>
   error + ActionItem list" where
  "generateActionItemsWith table currentRecord previousRecords targets =
     (case forEach (process_kpi table currentRecord previousRecords targets) [] kpiNames of
        Inl e \<Rightarrow> Inl e
      | Inr actionItems \<Rightarrow> Inr (Array_sort compare_priority actionItems))"

definition generateActionItems ::
  "PerformanceRecord \<Rightarrow> PerformanceRecord list \<Rightarrow> KPITarget list \<Rightarrow> error + ActionItem list" where
  "generateActionItems = generateActionItemsWith KPI_RECOMMENDATIONS"

section \<open>Category statistics (\<open>getPerformanceCategoryStats\<close>)\<close>

record CategoryStats =
  critical :: int
  bad :: int
  target :: int
  good :: int
  total :: int

text \<open>The body of the inner loop: one metric of one record.\<close>

definition count_kpi ::
  "KPITarget list \<Rightarrow> PerformanceRecord \<Rightarrow> CategoryStats \<Rightarrow> KpiName \<Rightarrow> CategoryStats" where
  "count_kpi targets record stats kpiName =
     (case find (\<lambda>t. kpi_name t = kpi_key kpiName) targets of
        None \<Rightarrow> stats
      | Some t \<Rightarrow>
          if 0 < monthly_target t then
            (let category =
                   getPerformanceCategory
                     (achievement (kpi_value record kpiName) (monthly_target t));
                 stats1 = stats\<lparr>total := total stats + 1\<rparr>
             in if name category = ''Critical'' then stats1\<lparr>critical := critical stats1 + 1\<rparr>
                else if name category = ''Bad'' then stats1\<lparr>bad := bad stats1 + 1\<rparr>
                else if name category = ''Target'' then stats1\<lparr>target := target stats1 + 1\<rparr>
                else if name category = ''Good'' then stats1\<lparr>good := good stats1 + 1\<rparr>
                else stats1)
          else stats)"

definition getPerformanceCategoryStats ::
  "PerformanceRecord list \<Rightarrow> KPITarget list \<Rightarrow> CategoryStats" where
  "getPerformanceCategoryStats records targets =
     foldl (\<lambda>stats record. foldl (count_kpi targets record) stats kpiNames)
       \<lparr>critical = 0, bad = 0, target = 0, good = 0, total = 0\<rparr> records"

section \<open>The annual report (\<open>generateAnnualReport\<close> in \<open>components/Dashboard.tsx\<close>)\<close>

text \<open>
  The part of the handler that computes the per-metric achievements, their average and
  the grade from the year's records of one analyst. The state of the handler, its
  notifications and the texts it derives afterwards are left out.
\<close>

record KpiPerformance =
  perf_kpi :: string
  perf_achievement :: rounded
  perf_target :: int
  actual :: int

record AnnualSummary =
  kpiPerformances :: "KpiPerformance list"
  averagePerformance :: rounded
  performanceGrade :: string

definition totalPerformance :: "PerformanceRecord list \<Rightarrow> KpiName \<Rightarrow> int" where
  "totalPerformance performanceRecords =
     foldl (\<lambda>acc record. (\<lambda>k. acc k + kpi_value record k)) (\<lambda>k. 0) performanceRecords"

text \<open>
  The callback of \<open>kpiNames.map\<close>, which also updates \<open>totalAchievement\<close> and
  \<open>validKPIs\<close>; \<open>None\<close> is the \<open>null\<close> that \<open>filter(Boolean)\<close> removes.
\<close>

definition annual_kpi ::
  "Analyst \<Rightarrow> (KpiName \<Rightarrow> int) \<Rightarrow> KPITarget list \<Rightarrow>
   KpiPerformance option list \<times> rounded \<times> int \<Rightarrow> KpiName \<Rightarrow>
   KpiPerformance option list \<times> rounded \<times> int" where
  "annual_kpi analyst totals targets state kpiName =
     (case state of (mapped, totalAchievement, validKPIs) \<Rightarrow>
        (case find (\<lambda>t. kpi_name t = kpi_key kpiName \<and> role t = department analyst) targets of
           None \<Rightarrow> (mapped @ [None], totalAchievement, validKPIs)
         | Some t \<Rightarrow>
             if 0 < annual_target t then
               (let a = achievement (totals kpiName) (annual_target t)
                in (mapped @ [Some \<lparr>perf_kpi = kpi_key kpiName, perf_achievement = a,
                                    perf_target = annual_target t, actual = totals kpiName\<rparr>],
                    js_plus totalAchievement a, validKPIs + 1))
             else (mapped @ [None], totalAchievement, validKPIs)))"

definition generateAnnualReport ::
  "Analyst \<Rightarrow> PerformanceRecord list \<Rightarrow> KPITarget list \<Rightarrow> AnnualSummary option" where
  "generateAnnualReport analyst performanceRecords targets =
     (if performanceRecords = [] then None
      else
        (case foldl (annual_kpi analyst (totalPerformance performanceRecords) targets)
                ([], Num 0, 0) kpiNames of
           (mapped, totalAchievement, validKPIs) \<Rightarrow>
             (let average =
                    (if 0 < validKPIs then Math_round (js_divide totalAchievement (Num validKPIs))
                     else Num 0)
              in Some \<lparr>kpiPerformances = List.map_filter id mapped,
                       averagePerformance = average,
                       performanceGrade = name (getPerformanceCategory average)\<rparr>)))"

text \<open>
  The band table of the specification: the range of achievement percentages that each
  of the four named bands covers.
\<close>

definition band_matches :: "string \<Rightarrow> int \<Rightarrow> bool" where
  "band_matches band p =
     (band = ''Critical'' \<and> p \<le> 66 \<or> band = ''Bad'' \<and> 67 \<le> p \<and> p \<le> 83 \<or>
      band = ''Target'' \<and> 84 \<le> p \<and> p \<le> 119 \<or> band = ''Good'' \<and> 120 \<le> p)"

text \<open>
  The items that one round of the loop appends; a round that throws appends none.
\<close>

definition emitted ::
  "recommendation_table \<Rightarrow> PerformanceRecord \<Rightarrow> PerformanceRecord list \<Rightarrow> KPITarget list \<Rightarrow>
   KpiName \<Rightarrow> ActionItem list" where
  "emitted table currentRecord previousRecords targets kpiName =
     (case process_kpi table currentRecord previousRecords targets [] kpiName of
        Inl e \<Rightarrow> []
      | Inr items \<Rightarrow> items)"

text \<open>The place of a metric key in the iteration order of the generator.\<close>

definition kpi_position :: "string \<Rightarrow> nat" where
  "kpi_position key = length (takeWhile (\<lambda>k. kpi_key k \<noteq> key) kpiNames)"

text \<open>
  The order of the output of the generator: by priority, and among equal priorities by
  the place of the metric key.
\<close>

definition item_before :: "ActionItem \<Rightarrow> ActionItem \<Rightarrow> bool" where
  "item_before a b =
     (priority a < priority b \<or>
      priority a = priority b \<and> kpi_position (kpi a) < kpi_position (kpi b))"

text \<open>The invariant of the counters of the statistics.\<close>

definition stats_consistent :: "CategoryStats \<Rightarrow> bool" where
  "stats_consistent s =
     (total s = critical s + bad s + target s + good s \<and>
      0 \<le> critical s \<and> 0 \<le> bad s \<and> 0 \<le> target s \<and> 0 \<le> good s \<and> 0 \<le> total s)"

text \<open>
  A metric has a cell in a table when it has a target, the table has a row for its key,
  and the row has a cell for the lower-case name of its category.
\<close>

definition has_cell ::
  "recommendation_table \<Rightarrow> PerformanceRecord \<Rightarrow> KPITarget list \<Rightarrow> KpiName \<Rightarrow> bool" where
  "has_cell table c ts k =
     (case find (\<lambda>t. kpi_name t = kpi_key k) ts of
        None \<Rightarrow> False
      | Some t \<Rightarrow>
          (case table (kpi_key k) of
             None \<Rightarrow> False
           | Some row \<Rightarrow>
               row (toLowerCase (name (getPerformanceCategory
                      (achievement (kpi_value c k) (monthly_target t))))) \<noteq> None))"

text \<open>
  The chronology of the trend analysis. A record is dated when its year and month make
  a valid date. \<open>latest\<close> is the record with the latest date of a list, the first such
  record when several share that date. The prior records of a record are the records of
  the same member other than the record itself.
\<close>

definition dated :: "PerformanceRecord \<Rightarrow> bool" where
  "dated r = (case record_time r of Num t \<Rightarrow> True | _ \<Rightarrow> False)"

fun latest :: "PerformanceRecord list \<Rightarrow> PerformanceRecord option" where
  "latest [] = None"
| "latest (r # rs) =
     (case latest rs of
        None \<Rightarrow> Some r
      | Some s \<Rightarrow> if js_lt (record_time r) (record_time s) then Some s else Some r)"

text \<open>
  A calendar record has a month from 1 to 12 and a year that the date type takes as it
  is written.
\<close>

definition month_number :: "PerformanceRecord \<Rightarrow> int" where
  "month_number r = (case parseInt (month r) of Num m \<Rightarrow> m | _ \<Rightarrow> 0)"

definition calendar :: "PerformanceRecord \<Rightarrow> bool" where
  "calendar r =
     (1 \<le> month_number r \<and> month_number r \<le> 12 \<and> 100 \<le> year r \<and> year r \<le> 275000)"






section \<open>Example data\<close>

text \<open>
  One analyst in September 2025 and the month before, with targets for two metrics:
  90 outreaches against a target of 100 (after 100 the month before), and 13 live links
  against a target of 10 (after 20).
\<close>

definition example_current :: PerformanceRecord where
  "example_current =
     \<lparr>record_id = ''r2'', analyst_id = ''a1'', month = ''09'', year = 2025,
      outreaches = 90, live_links = 13, high_da_links = 0, content_distribution = 0,
      new_blogs = 0, blog_optimizations = 0, top_5_keywords = 0,
      created_at = ''2025-10-01'', updated_at = ''2025-10-01''\<rparr>"

definition example_previous :: PerformanceRecord where
  "example_previous =
     \<lparr>record_id = ''r1'', analyst_id = ''a1'', month = ''08'', year = 2025,
      outreaches = 100, live_links = 20, high_da_links = 0, content_distribution = 0,
      new_blogs = 0, blog_optimizations = 0, top_5_keywords = 0,
      created_at = ''2025-09-01'', updated_at = ''2025-09-01''\<rparr>"

definition example_targets :: "KPITarget list" where
  "example_targets =
     [\<lparr>target_id = ''t1'', kpi_name = ''outreaches'', monthly_target = 100,
       annual_target = 1300, role = ''SEO Analyst'', target_created_at = ''2025-01-01''\<rparr>,
      \<lparr>target_id = ''t2'', kpi_name = ''live_links'', monthly_target = 10,
       annual_target = 130, role = ''SEO Analyst'', target_created_at = ''2025-01-01''\<rparr>]"

definition example_items :: "ActionItem list" where
  "example_items =
     [\<lparr>item_id = ''outreaches-r2'', kpi = ''outreaches'', severity = ''info'',
       title = cell_title outreaches_target,
       description =
         ''Current: 90 | Target: 100 | Achievement: 90% | Trend: declining (-10%)'',
       recommendations = cell_recommendations outreaches_target, priority = 2\<rparr>,
      \<lparr>item_id = ''live_links-r2'', kpi = ''live_links'', severity = ''success'',
       title = cell_title live_links_good,
       description =
         ''Current: 13 | Target: 10 | Achievement: 130% | Trend: declining (-35%)'',
       recommendations = cell_recommendations live_links_good, priority = 4\<rparr>]"

text \<open>A table that has every row but no cell for outreaches.\<close>

definition example_table :: recommendation_table where
  "example_table = KPI_RECOMMENDATIONS(''outreaches'' \<mapsto> Map.empty)"

text \<open>The analyst of the example, and the targets of the example under another role.\<close>

definition example_analyst :: Analyst where
  "example_analyst =
     \<lparr>analyst_key = ''a1'', analyst_name = ''Member'', email = ''member@example.org'',
      hire_date = ''2024-01-15'', department = ''SEO Analyst'', status = ''active''\<rparr>"

definition example_targets_other_role :: "KPITarget list" where
  "example_targets_other_role = map (\<lambda>t. t\<lparr>role := ''Content Writer''\<rparr>) example_targets"

text \<open>
  The record of July 2025, with the counters of August, and a list of targets in which
  the monthly target of outreaches is 0.
\<close>

definition example_steady :: PerformanceRecord where
  "example_steady = example_previous\<lparr>record_id := ''r0'', month := ''07''\<rparr>"

definition example_zero_targets :: "KPITarget list" where
  "example_zero_targets =
     [\<lparr>target_id = ''t1'', kpi_name = ''outreaches'', monthly_target = 0,
       annual_target = 0, role = ''SEO Analyst'', target_created_at = ''2025-01-01''\<rparr>]"


section \<open>Properties of the classifier\<close>

lemma category_names:
  "name (performanceCategories ! 0) = ''Critical''"
  "name (performanceCategories ! Suc 0) = ''Bad''"
  "name (performanceCategories ! 2) = ''Target''"
  "name (performanceCategories ! 3) = ''Good''"
  by (simp_all add: performanceCategories_def)

lemma getPerformanceCategory_name:
  "name (getPerformanceCategory (Num p)) =
     (if p \<le> 66 then ''Critical'' else if p \<le> 83 then ''Bad''
      else if p \<le> 119 then ''Target'' else ''Good'')"
  by (simp add: getPerformanceCategory_def category_names)

lemma getPerformanceCategory_special:
  "name (getPerformanceCategory NaN) = ''Good''"
  "name (getPerformanceCategory Infinity) = ''Good''"
  "name (getPerformanceCategory NegInfinity) = ''Critical''"
  by (simp_all add: getPerformanceCategory_def category_names)

lemma getPerformanceCategory_mem:
  "getPerformanceCategory x \<in> set performanceCategories"
  by (simp add: getPerformanceCategory_def performanceCategories_def)

lemma getPerformanceCategory_name_cases:
  "name (getPerformanceCategory x) = ''Critical'' \<or> name (getPerformanceCategory x) = ''Bad'' \<or>
   name (getPerformanceCategory x) = ''Target'' \<or> name (getPerformanceCategory x) = ''Good''"
  by (simp add: getPerformanceCategory_def category_names)

lemma band_matches_unique:
  "\<exists>!c. c \<in> set performanceCategories \<and> band_matches (name c) p"
proof -
  consider "p \<le> 66" | "67 \<le> p" "p \<le> 83" | "84 \<le> p" "p \<le> 119" | "120 \<le> p"
    by linarith
  then show ?thesis
  proof cases
    case 1
    then show ?thesis
      by (intro ex1I [of _ "performanceCategories ! 0"])
         (auto simp: performanceCategories_def band_matches_def)
  next
    case 2
    then show ?thesis
      by (intro ex1I [of _ "performanceCategories ! 1"])
         (auto simp: performanceCategories_def band_matches_def)
  next
    case 3
    then show ?thesis
      by (intro ex1I [of _ "performanceCategories ! 2"])
         (auto simp: performanceCategories_def band_matches_def)
  next
    case 4
    then show ?thesis
      by (intro ex1I [of _ "performanceCategories ! 3"])
         (auto simp: performanceCategories_def band_matches_def)
  qed
qed

text \<open>
  C1. The classifier is total over the integers: for every integer \<open>p\<close> exactly one of the
  four bands covers \<open>p\<close>, and the classifier returns that band. The boundary values are
  66 Critical, 67 Bad, 83 Bad, 84 Target, 119 Target, 120 Good, 0 Critical, 1000 Good,
  and every negative integer (written \<open>- 1 - n\<close> for a natural \<open>n\<close>) is Critical.
\<close>

theorem getPerformanceCategory_total:
  "getPerformanceCategory (Num p) \<in> set performanceCategories \<and>
   band_matches (name (getPerformanceCategory (Num p))) p \<and>
   (\<exists>!c. c \<in> set performanceCategories \<and> band_matches (name c) p) \<and>
   name (getPerformanceCategory (Num 66)) = ''Critical'' \<and>
   name (getPerformanceCategory (Num 67)) = ''Bad'' \<and>
   name (getPerformanceCategory (Num 83)) = ''Bad'' \<and>
   name (getPerformanceCategory (Num 84)) = ''Target'' \<and>
   name (getPerformanceCategory (Num 119)) = ''Target'' \<and>
   name (getPerformanceCategory (Num 120)) = ''Good'' \<and>
   name (getPerformanceCategory (Num 0)) = ''Critical'' \<and>
   name (getPerformanceCategory (Num 1000)) = ''Good'' \<and>
   name (getPerformanceCategory (Num (- 1 - int n))) = ''Critical''"
proof -
  have "band_matches (name (getPerformanceCategory (Num p))) p"
    by (simp add: getPerformanceCategory_name band_matches_def)
  then show ?thesis
    using band_matches_unique [of p]
    by (simp add: getPerformanceCategory_mem getPerformanceCategory_name)
qed

section \<open>Properties of the generator\<close>

subsection \<open>The loop of the generator\<close>

lemma process_kpi_emitted:
  assumes "table (kpi_key k) \<noteq> None"
  shows "process_kpi table c p ts acc k = Inr (acc @ emitted table c p ts k)"
  using assms
  by (auto simp: process_kpi_def emitted_def Let_def split: option.splits)

lemma forEach_process_kpi:
  assumes "\<forall>k\<in>set ks. table (kpi_key k) \<noteq> None"
  shows "forEach (process_kpi table c p ts) acc ks =
           Inr (acc @ concat (map (emitted table c p ts) ks))"
  using assms
proof (induction ks arbitrary: acc)
  case Nil
  then show ?case by simp
next
  case (Cons k ks)
  then show ?case by (simp add: process_kpi_emitted)
qed

lemma generateActionItemsWith_sorted_emitted:
  assumes "\<forall>k\<in>set kpiNames. table (kpi_key k) \<noteq> None"
  shows "generateActionItemsWith table c p ts =
           Inr (Array_sort compare_priority (concat (map (emitted table c p ts) kpiNames)))"
  by (simp add: generateActionItemsWith_def forEach_process_kpi [OF assms])

lemma KPI_RECOMMENDATIONS_rows:
  "\<forall>k\<in>set kpiNames. KPI_RECOMMENDATIONS (kpi_key k) \<noteq> None"
  by (simp add: kpiNames_def KPI_RECOMMENDATIONS_def)

lemma generateActionItems_sorted_emitted:
  "generateActionItems c p ts =
     Inr (Array_sort compare_priority
            (concat (map (emitted KPI_RECOMMENDATIONS c p ts) kpiNames)))"
  unfolding generateActionItems_def
  by (rule generateActionItemsWith_sorted_emitted [OF KPI_RECOMMENDATIONS_rows])

subsection \<open>Sorting keeps the elements\<close>

lemma set_insert_by: "set (insert_by cmp x ys) = insert x (set ys)"
  by (induction ys) auto

lemma set_Array_sort: "set (Array_sort cmp xs) = set xs"
  by (induction xs) (simp_all add: Array_sort_def set_insert_by)

lemma Array_sort_Cons: "Array_sort cmp (x # xs) = insert_by cmp x (Array_sort cmp xs)"
  by (simp add: Array_sort_def)

lemma Array_sort_Nil: "Array_sort cmp [] = []"
  by (simp add: Array_sort_def)

subsection \<open>The order of the output\<close>

lemma insert_by_item_before:
  assumes "sorted_wrt item_before ys"
    and "\<forall>y\<in>set ys. kpi_position (kpi x) < kpi_position (kpi y)"
  shows "sorted_wrt item_before (insert_by compare_priority x ys)"
  using assms
proof (induction ys)
  case Nil
  then show ?case by simp
next
  case (Cons y ys)
  show ?case
  proof (cases "js_gt (compare_priority x y) (Num 0)")
    case True
    then have "priority y < priority x"
      by (simp add: compare_priority_def js_gt_def)
    then have "item_before y x"
      by (simp add: item_before_def)
    with True Cons show ?thesis
      by (simp add: set_insert_by)
  next
    case False
    then have le: "priority x \<le> priority y"
      by (simp add: compare_priority_def js_gt_def)
    have "item_before x z" if "z \<in> set (y # ys)" for z
    proof -
      have "priority y \<le> priority z"
        using that Cons.prems(1) by (auto simp: item_before_def)
      with le have "priority x \<le> priority z" by simp
      moreover have "kpi_position (kpi x) < kpi_position (kpi z)"
        using that Cons.prems(2) by auto
      ultimately show ?thesis by (auto simp: item_before_def)
    qed
    with False Cons.prems(1) show ?thesis by simp
  qed
qed

lemma Array_sort_item_before:
  assumes "sorted_wrt (\<lambda>a b. kpi_position (kpi a) < kpi_position (kpi b)) xs"
  shows "sorted_wrt item_before (Array_sort compare_priority xs)"
  using assms
proof (induction xs)
  case Nil
  then show ?case by (simp add: Array_sort_Nil)
next
  case (Cons x xs)
  then show ?case
    by (simp add: Array_sort_Cons insert_by_item_before set_Array_sort)
qed

lemma emitted_kpi:
  "item \<in> set (emitted table c p ts k) \<Longrightarrow> kpi item = kpi_key k"
  by (auto simp: emitted_def process_kpi_def Let_def split: option.splits)

lemma kpi_positions:
  "map (\<lambda>k. kpi_position (kpi_key k)) kpiNames = [0, 1, 2, 3, 4, 5, 6]"
  by (simp add: kpi_position_def kpiNames_def)

lemma emitted_in_metric_order:
  assumes "sorted_wrt (<) (map (\<lambda>k. kpi_position (kpi_key k)) ks)"
  shows "sorted_wrt (\<lambda>a b. kpi_position (kpi a) < kpi_position (kpi b))
           (concat (map (emitted table c p ts) ks))"
  using assms
proof (induction ks)
  case Nil
  then show ?case by simp
next
  case (Cons k ks)
  have one: "sorted_wrt (\<lambda>a b. kpi_position (kpi a) < kpi_position (kpi b))
               (emitted table c p ts k)"
    by (auto simp: emitted_def process_kpi_def Let_def split: option.splits)
  from Cons show ?case
    by (auto simp: sorted_wrt_append one dest!: emitted_kpi)
qed

subsection \<open>The items of the output\<close>

lemma emitted_item:
  assumes "item \<in> set (emitted table c p ts k)"
  obtains t row cell where
    "find (\<lambda>t. kpi_name t = kpi_key k) ts = Some t"
    "table (kpi_key k) = Some row"
    "row (toLowerCase (name (getPerformanceCategory
            (achievement (kpi_value c k) (monthly_target t))))) = Some cell"
    "item =
       \<lparr>item_id = kpi_key k @ ''-'' @ record_id c,
        kpi = kpi_key k,
        severity =
          severity_of (name (getPerformanceCategory
            (achievement (kpi_value c k) (monthly_target t)))),
        title = cell_title cell,
        description =
          describe (kpi_value c k) (monthly_target t)
            (achievement (kpi_value c k) (monthly_target t)) (analyzeTrend k c p),
        recommendations = cell_recommendations cell,
        priority =
          (if trend (analyzeTrend k c p) = ''declining'' \<and>
              name (getPerformanceCategory
                (achievement (kpi_value c k) (monthly_target t))) \<noteq> ''Good''
           then max 1 (priority_of (name (getPerformanceCategory
                  (achievement (kpi_value c k) (monthly_target t)))) - 1)
           else priority_of (name (getPerformanceCategory
                  (achievement (kpi_value c k) (monthly_target t)))))\<rparr>"
  using assms
  by (auto simp: emitted_def process_kpi_def Let_def split: option.splits)

lemma generateActionItems_item:
  assumes "generateActionItems c p ts = Inr items" and "item \<in> set items"
  obtains k where "k \<in> set kpiNames" "item \<in> set (emitted KPI_RECOMMENDATIONS c p ts k)"
  using assms
  by (auto simp: generateActionItems_sorted_emitted set_Array_sort)

subsection \<open>The example, evaluated\<close>

lemma example_output:
  "generateActionItems example_current [example_previous] example_targets = Inr example_items"
  by code_simp

subsection \<open>The counters of the statistics\<close>

lemma count_kpi_consistent:
  assumes "stats_consistent s"
  shows "stats_consistent (count_kpi targets r s k)"
proof (cases "find (\<lambda>t. kpi_name t = kpi_key k) targets")
  case None
  with assms show ?thesis by (simp add: count_kpi_def)
next
  case (Some t)
  define c where
    "c = name (getPerformanceCategory (achievement (kpi_value r k) (monthly_target t)))"
  have "c = ''Critical'' \<or> c = ''Bad'' \<or> c = ''Target'' \<or> c = ''Good''"
    unfolding c_def by (rule getPerformanceCategory_name_cases)
  with assms Some show ?thesis
    unfolding count_kpi_def stats_consistent_def Let_def c_def [symmetric]
    by (auto simp: c_def [symmetric])
qed

lemma foldl_count_kpi_consistent:
  "stats_consistent s \<Longrightarrow> stats_consistent (foldl (count_kpi targets r) s ks)"
  by (induction ks arbitrary: s) (simp_all add: count_kpi_consistent)

lemma foldl_records_consistent:
  "stats_consistent s \<Longrightarrow>
   stats_consistent
     (foldl (\<lambda>stats record. foldl (count_kpi targets record) stats kpiNames) s rs)"
  by (induction rs arbitrary: s) (simp_all add: foldl_count_kpi_consistent)

text \<open>
  C10. For every list of records and every list of targets the counters that
  \<open>getPerformanceCategoryStats\<close> returns satisfy
  \<open>total = critical + bad + target + good\<close>, and none of the five is negative.
\<close>

theorem getPerformanceCategoryStats_consistent:
  "total (getPerformanceCategoryStats records targets) =
     critical (getPerformanceCategoryStats records targets)
     + bad (getPerformanceCategoryStats records targets)
     + target (getPerformanceCategoryStats records targets)
     + good (getPerformanceCategoryStats records targets) \<and>
   0 \<le> critical (getPerformanceCategoryStats records targets) \<and>
   0 \<le> bad (getPerformanceCategoryStats records targets) \<and>
   0 \<le> target (getPerformanceCategoryStats records targets) \<and>
   0 \<le> good (getPerformanceCategoryStats records targets) \<and>
   0 \<le> total (getPerformanceCategoryStats records targets)"
proof -
  have "stats_consistent \<lparr>critical = 0, bad = 0, target = 0, good = 0, total = 0\<rparr>"
    by (simp add: stats_consistent_def)
  then have "stats_consistent (getPerformanceCategoryStats records targets)"
    unfolding getPerformanceCategoryStats_def by (rule foldl_records_consistent)
  then show ?thesis
    by (simp add: stats_consistent_def)
qed

text \<open>
  C2. Every item that \<open>generateActionItems\<close> returns belongs to a metric key with a
  target, and its severity and priority follow from the category of that metric and
  the direction of its trend: Critical gives \<open>critical\<close> and 1; Bad gives \<open>warning\<close> and
  2, or 1 when the trend is declining; Target gives \<open>info\<close> and 3, or 2 when declining;
  Good gives \<open>success\<close> and 4 whatever the trend.
\<close>

theorem generateActionItems_severity_priority:
  "\<exists>items. generateActionItems c p ts = Inr items \<and>
     (\<forall>item\<in>set items. \<exists>k\<in>set kpiNames. \<exists>t.
        find (\<lambda>t. kpi_name t = kpi_key k) ts = Some t \<and> kpi item = kpi_key k \<and>
        (let category =
               name (getPerformanceCategory (achievement (kpi_value c k) (monthly_target t)));
             declining = (trend (analyzeTrend k c p) = ''declining'')
         in category = ''Critical'' \<and> severity item = ''critical'' \<and> priority item = 1 \<or>
            category = ''Bad'' \<and> severity item = ''warning'' \<and>
              priority item = (if declining then 1 else 2) \<or>
            category = ''Target'' \<and> severity item = ''info'' \<and>
              priority item = (if declining then 2 else 3) \<or>
            category = ''Good'' \<and> severity item = ''success'' \<and> priority item = 4))"
proof -
  obtain items where items: "generateActionItems c p ts = Inr items"
    by (simp add: generateActionItems_sorted_emitted)
  have "\<exists>k\<in>set kpiNames. \<exists>t.
          find (\<lambda>t. kpi_name t = kpi_key k) ts = Some t \<and> kpi item = kpi_key k \<and>
          (let category =
                 name (getPerformanceCategory (achievement (kpi_value c k) (monthly_target t)));
               declining = (trend (analyzeTrend k c p) = ''declining'')
           in category = ''Critical'' \<and> severity item = ''critical'' \<and> priority item = 1 \<or>
              category = ''Bad'' \<and> severity item = ''warning'' \<and>
                priority item = (if declining then 1 else 2) \<or>
              category = ''Target'' \<and> severity item = ''info'' \<and>
                priority item = (if declining then 2 else 3) \<or>
              category = ''Good'' \<and> severity item = ''success'' \<and> priority item = 4)"
    if "item \<in> set items" for item
  proof -
    from items that obtain k where k: "k \<in> set kpiNames"
      and "item \<in> set (emitted KPI_RECOMMENDATIONS c p ts k)"
      by (rule generateActionItems_item)
    then obtain t row cell where t: "find (\<lambda>t. kpi_name t = kpi_key k) ts = Some t"
      and item: "kpi item = kpi_key k"
        "severity item =
           severity_of (name (getPerformanceCategory
             (achievement (kpi_value c k) (monthly_target t))))"
        "priority item =
          (if trend (analyzeTrend k c p) = ''declining'' \<and>
              name (getPerformanceCategory
                (achievement (kpi_value c k) (monthly_target t))) \<noteq> ''Good''
           then max 1 (priority_of (name (getPerformanceCategory
                  (achievement (kpi_value c k) (monthly_target t)))) - 1)
           else priority_of (name (getPerformanceCategory
                  (achievement (kpi_value c k) (monthly_target t)))))"
      by (elim emitted_item) simp
    define category where
      "category = name (getPerformanceCategory (achievement (kpi_value c k) (monthly_target t)))"
    have "category = ''Critical'' \<or> category = ''Bad'' \<or> category = ''Target'' \<or>
          category = ''Good''"
      unfolding category_def by (rule getPerformanceCategory_name_cases)
    then have
      "category = ''Critical'' \<and> severity item = ''critical'' \<and> priority item = 1 \<or>
       category = ''Bad'' \<and> severity item = ''warning'' \<and>
         priority item = (if trend (analyzeTrend k c p) = ''declining'' then 1 else 2) \<or>
       category = ''Target'' \<and> severity item = ''info'' \<and>
         priority item = (if trend (analyzeTrend k c p) = ''declining'' then 2 else 3) \<or>
       category = ''Good'' \<and> severity item = ''success'' \<and> priority item = 4"
      using item(2,3) unfolding category_def [symmetric]
      by (auto simp: severity_of_def priority_of_def)
    with k t item(1) show ?thesis
      unfolding Let_def category_def by blast
  qed
  with items show ?thesis by blast
qed

theorem generateActionItems_severity_priority_witness:
  "\<exists>items. generateActionItems example_current [example_previous] example_targets = Inr items \<and>
     hd items = hd example_items \<and>
     (\<exists>k\<in>set kpiNames. \<exists>t.
        find (\<lambda>t. kpi_name t = kpi_key k) example_targets = Some t \<and>
        kpi (hd items) = kpi_key k \<and>
        (let category =
               name (getPerformanceCategory
                 (achievement (kpi_value example_current k) (monthly_target t)));
             declining = (trend (analyzeTrend k example_current [example_previous]) = ''declining'')
         in category = ''Critical'' \<and> severity (hd items) = ''critical'' \<and>
              priority (hd items) = 1 \<or>
            category = ''Bad'' \<and> severity (hd items) = ''warning'' \<and>
              priority (hd items) = (if declining then 1 else 2) \<or>
            category = ''Target'' \<and> severity (hd items) = ''info'' \<and>
              priority (hd items) = (if declining then 2 else 3) \<or>
            category = ''Good'' \<and> severity (hd items) = ''success'' \<and>
              priority (hd items) = 4))"
proof -
  from generateActionItems_severity_priority
    [of example_current "[example_previous]" example_targets]
  obtain items where
    items: "generateActionItems example_current [example_previous] example_targets = Inr items"
    and each: "\<forall>item\<in>set items. \<exists>k\<in>set kpiNames. \<exists>t.
        find (\<lambda>t. kpi_name t = kpi_key k) example_targets = Some t \<and> kpi item = kpi_key k \<and>
        (let category =
               name (getPerformanceCategory
                 (achievement (kpi_value example_current k) (monthly_target t)));
             declining = (trend (analyzeTrend k example_current [example_previous]) = ''declining'')
         in category = ''Critical'' \<and> severity item = ''critical'' \<and> priority item = 1 \<or>
            category = ''Bad'' \<and> severity item = ''warning'' \<and>
              priority item = (if declining then 1 else 2) \<or>
            category = ''Target'' \<and> severity item = ''info'' \<and>
              priority item = (if declining then 2 else 3) \<or>
            category = ''Good'' \<and> severity item = ''success'' \<and> priority item = 4)"
    by blast
  from items have eq: "items = example_items"
    by (simp add: example_output)
  then have "hd items \<in> set items"
    by (simp add: example_items_def)
  with each items eq show ?thesis by blast
qed

text \<open>
  C4. The list that \<open>generateActionItems\<close> returns is in ascending order of priority,
  and of any two items with the same priority the one whose metric key comes first in
  the iteration order of the seven metrics comes first: for positions \<open>i < j\<close> of the
  output, item \<open>i\<close> has the smaller priority, or the same priority and the earlier
  metric key.
\<close>

theorem generateActionItems_stable_sorted:
  "\<exists>items. generateActionItems c p ts = Inr items \<and> sorted_wrt item_before items"
proof -
  have "sorted_wrt (<) (map (\<lambda>k. kpi_position (kpi_key k)) kpiNames)"
    by (simp add: kpi_positions)
  then have "sorted_wrt item_before
               (Array_sort compare_priority
                  (concat (map (emitted KPI_RECOMMENDATIONS c p ts) kpiNames)))"
    by (intro Array_sort_item_before emitted_in_metric_order)
  then show ?thesis
    by (simp add: generateActionItems_sorted_emitted)
qed

subsection \<open>Which metrics have an item\<close>

lemma distinct_map_insert_by:
  "distinct (map f (insert_by cmp x ys)) = (f x \<notin> f ` set ys \<and> distinct (map f ys))"
  by (induction ys) (auto simp: set_insert_by)

lemma distinct_map_Array_sort:
  "distinct (map f (Array_sort cmp xs)) = distinct (map f xs)"
  by (induction xs)
     (simp_all add: Array_sort_Nil Array_sort_Cons distinct_map_insert_by set_Array_sort)

lemma inj_kpi_key: "inj kpi_key"
proof (rule injI)
  fix a b
  assume "kpi_key a = kpi_key b"
  then show "a = b" by (cases a; cases b) simp_all
qed

lemma kpi_position_kpi_key_inj:
  "kpi_position (kpi_key a) = kpi_position (kpi_key b) \<Longrightarrow> a = b"
  by (cases a; cases b) (simp_all add: kpi_position_def kpiNames_def)

lemma sorted_wrt_neq_distinct:
  "sorted_wrt (\<lambda>a b. f a \<noteq> f b) xs \<Longrightarrow> distinct (map f xs)"
  by (induction xs) auto

lemma distinct_kpi_emitted:
  "distinct (map kpi (concat (map (emitted table c p ts) kpiNames)))"
proof -
  have "sorted_wrt (<) (map (\<lambda>k. kpi_position (kpi_key k)) kpiNames)"
    by (simp add: kpi_positions)
  then have "sorted_wrt (\<lambda>a b. kpi_position (kpi a) < kpi_position (kpi b))
               (concat (map (emitted table c p ts) kpiNames))"
    by (rule emitted_in_metric_order)
  then have "sorted_wrt (\<lambda>a b. kpi a \<noteq> kpi b) (concat (map (emitted table c p ts) kpiNames))"
    by (rule sorted_wrt_mono_rel [rotated]) auto
  then show ?thesis
    by (rule sorted_wrt_neq_distinct)
qed

lemma emitted_has_cell:
  "emitted table c p ts k \<noteq> [] \<longleftrightarrow> has_cell table c ts k"
  by (auto simp: emitted_def process_kpi_def has_cell_def Let_def split: option.splits)

lemma set_kpiNames: "set kpiNames = UNIV"
proof -
  have "k \<in> set kpiNames" for k
    by (cases k) (simp_all add: kpiNames_def)
  then show ?thesis by blast
qed

lemma kpi_emitted:
  "kpi ` set (concat (map (emitted table c p ts) kpiNames)) =
     kpi_key ` {k. has_cell table c ts k}"
proof (intro set_eqI iffI)
  fix x
  assume "x \<in> kpi ` set (concat (map (emitted table c p ts) kpiNames))"
  then obtain k item where "item \<in> set (emitted table c p ts k)" "x = kpi item"
    by auto
  moreover from this have "emitted table c p ts k \<noteq> []" "kpi item = kpi_key k"
    by (auto dest: emitted_kpi)
  ultimately show "x \<in> kpi_key ` {k. has_cell table c ts k}"
    by (auto simp: emitted_has_cell)
next
  fix x
  assume "x \<in> kpi_key ` {k. has_cell table c ts k}"
  then obtain k where k: "has_cell table c ts k" "x = kpi_key k"
    by auto
  then have "emitted table c p ts k \<noteq> []"
    by (simp add: emitted_has_cell)
  then obtain item where item: "item \<in> set (emitted table c p ts k)"
    by (cases "emitted table c p ts k") auto
  then have "kpi item = kpi_key k"
    by (rule emitted_kpi)
  with item k show "x \<in> kpi ` set (concat (map (emitted table c p ts) kpiNames))"
    by (force simp: set_kpiNames)
qed

lemma lower_category_names:
  "toLowerCase ''Critical'' = ''critical''"
  "toLowerCase ''Bad'' = ''bad''"
  "toLowerCase ''Target'' = ''target''"
  "toLowerCase ''Good'' = ''good''"
  by code_simp+

lemma KPI_RECOMMENDATIONS_complete:
  "\<exists>row. KPI_RECOMMENDATIONS (kpi_key k) = Some row \<and>
     row (toLowerCase (name (getPerformanceCategory x))) \<noteq> None"
proof -
  have "name (getPerformanceCategory x) = ''Critical'' \<or>
        name (getPerformanceCategory x) = ''Bad'' \<or>
        name (getPerformanceCategory x) = ''Target'' \<or>
        name (getPerformanceCategory x) = ''Good''"
    by (rule getPerformanceCategory_name_cases)
  then show ?thesis
    by (cases k)
       (auto simp: KPI_RECOMMENDATIONS_def lower_category_names outreaches_row_def
          live_links_row_def high_da_links_row_def content_distribution_row_def
          new_blogs_row_def blog_optimizations_row_def top_5_keywords_row_def)
qed

lemma has_cell_KPI_RECOMMENDATIONS:
  "has_cell KPI_RECOMMENDATIONS c ts k \<longleftrightarrow> find (\<lambda>t. kpi_name t = kpi_key k) ts \<noteq> None"
proof (cases "find (\<lambda>t. kpi_name t = kpi_key k) ts")
  case None
  then show ?thesis by (simp add: has_cell_def)
next
  case (Some t)
  with KPI_RECOMMENDATIONS_complete
    [of k "achievement (kpi_value c k) (monthly_target t)"]
  show ?thesis by (auto simp: has_cell_def)
qed

text \<open>
  C8. \<open>generateActionItems\<close> throws for no input: it returns a list, with exactly one item
  for each metric key that has a target and none for the others. For every table that
  has a row for each of the seven keys the generator returns a list as well, with
  exactly one item for each metric key that has a target and a cell for its category,
  and each item carries the title and the recommendations of a cell of the row of its
  key; a metric without a target or without a cell is left out and the others are kept.
\<close>

theorem generateActionItems_never_throws:
  "(\<exists>items. generateActionItems c p ts = Inr items \<and> distinct (map kpi items) \<and>
      kpi ` set items = kpi_key ` {k. find (\<lambda>t. kpi_name t = kpi_key k) ts \<noteq> None}) \<and>
   ((\<forall>k\<in>set kpiNames. table (kpi_key k) \<noteq> None) \<longrightarrow>
    (\<exists>items. generateActionItemsWith table c p ts = Inr items \<and> distinct (map kpi items) \<and>
       kpi ` set items = kpi_key ` {k. has_cell table c ts k} \<and>
       (\<forall>item\<in>set items. \<exists>row cell. table (kpi item) = Some row \<and> cell \<in> ran row \<and>
          title item = cell_title cell \<and> recommendations item = cell_recommendations cell)))"
proof (intro conjI impI)
  show "\<exists>items. generateActionItems c p ts = Inr items \<and> distinct (map kpi items) \<and>
      kpi ` set items = kpi_key ` {k. find (\<lambda>t. kpi_name t = kpi_key k) ts \<noteq> None}"
    using kpi_emitted [of KPI_RECOMMENDATIONS c p ts]
    by (simp add: generateActionItems_sorted_emitted distinct_map_Array_sort
        distinct_kpi_emitted set_Array_sort has_cell_KPI_RECOMMENDATIONS)
next
  assume rows: "\<forall>k\<in>set kpiNames. table (kpi_key k) \<noteq> None"
  have "\<exists>row cell. table (kpi item) = Some row \<and> cell \<in> ran row \<and>
          title item = cell_title cell \<and> recommendations item = cell_recommendations cell"
    if "item \<in> set (concat (map (emitted table c p ts) kpiNames))" for item
  proof -
    from that obtain k where "item \<in> set (emitted table c p ts k)"
      by auto
    then show ?thesis
      by (elim emitted_item) (auto simp: ran_def)
  qed
  then show "\<exists>items. generateActionItemsWith table c p ts = Inr items \<and>
       distinct (map kpi items) \<and>
       kpi ` set items = kpi_key ` {k. has_cell table c ts k} \<and>
       (\<forall>item\<in>set items. \<exists>row cell. table (kpi item) = Some row \<and> cell \<in> ran row \<and>
          title item = cell_title cell \<and> recommendations item = cell_recommendations cell)"
    using kpi_emitted [of table c p ts]
    by (simp add: generateActionItemsWith_sorted_emitted [OF rows] distinct_map_Array_sort
        distinct_kpi_emitted set_Array_sort)
qed

lemma example_table_rows: "\<forall>k\<in>set kpiNames. example_table (kpi_key k) \<noteq> None"
  by (simp add: example_table_def kpiNames_def KPI_RECOMMENDATIONS_def)

lemma example_table_output:
  "generateActionItemsWith example_table example_current [example_previous] example_targets =
     Inr (tl example_items)"
  by code_simp

theorem generateActionItems_never_throws_witness:
  "\<exists>items.
     generateActionItemsWith example_table example_current [example_previous] example_targets =
       Inr items \<and>
     items = tl example_items \<and> map kpi items = [''live_links''] \<and>
     kpi ` set items = kpi_key ` {k. has_cell example_table example_current example_targets k}"
proof -
  note generateActionItems_never_throws
    [of example_current "[example_previous]" example_targets example_table,
      THEN conjunct2, THEN mp, OF example_table_rows]
  then obtain items where
    result: "generateActionItemsWith example_table example_current [example_previous]
               example_targets = Inr items"
    and keys: "kpi ` set items =
                 kpi_key ` {k. has_cell example_table example_current example_targets k}"
    by (elim exE conjE)
  from result have items: "items = tl example_items"
    by (simp add: example_table_output)
  have "map kpi (tl example_items) = [''live_links'']"
    by (simp add: example_items_def)
  with items have "map kpi items = [''live_links'']"
    by (simp only:)
  with result keys items show ?thesis
    by (intro exI conjI)
qed

text \<open>A table without the row of a metric that has a target makes the generator throw.\<close>

lemma generateActionItemsWith_missing_row:
  "generateActionItemsWith Map.empty example_current [example_previous] example_targets =
     Inl TypeError"
  by code_simp

subsection \<open>Targets and roles\<close>

lemma find_target_role_erased:
  assumes "map (\<lambda>t. t\<lparr>role := r\<rparr>) ts1 = map (\<lambda>t. t\<lparr>role := r\<rparr>) ts2"
  shows "map_option monthly_target (find (\<lambda>t. kpi_name t = key) ts1) =
         map_option monthly_target (find (\<lambda>t. kpi_name t = key) ts2)"
  using assms
proof (induction ts1 arbitrary: ts2)
  case Nil
  then show ?case by simp
next
  case (Cons t1 ts1)
  then obtain t2 ts2' where ts2: "ts2 = t2 # ts2'"
    and head: "t1\<lparr>role := r\<rparr> = t2\<lparr>role := r\<rparr>"
    and tail: "map (\<lambda>t. t\<lparr>role := r\<rparr>) ts1 = map (\<lambda>t. t\<lparr>role := r\<rparr>) ts2'"
    by (cases ts2) auto
  from head have "kpi_name (t1\<lparr>role := r\<rparr>) = kpi_name (t2\<lparr>role := r\<rparr>)"
    and "monthly_target (t1\<lparr>role := r\<rparr>) = monthly_target (t2\<lparr>role := r\<rparr>)"
    by simp_all
  then have "kpi_name t1 = kpi_name t2" "monthly_target t1 = monthly_target t2"
    by simp_all
  with Cons.IH [OF tail] ts2 show ?case by simp
qed

lemma process_kpi_target:
  assumes "map_option monthly_target (find (\<lambda>t. kpi_name t = kpi_key k) ts1) =
           map_option monthly_target (find (\<lambda>t. kpi_name t = kpi_key k) ts2)"
  shows "process_kpi table c p ts1 acc k = process_kpi table c p ts2 acc k"
proof (cases "find (\<lambda>t. kpi_name t = kpi_key k) ts1")
  case None
  with assms have "find (\<lambda>t. kpi_name t = kpi_key k) ts2 = None"
    by simp
  with None show ?thesis
    by (simp add: process_kpi_def)
next
  case (Some t1)
  with assms obtain t2 where t2: "find (\<lambda>t. kpi_name t = kpi_key k) ts2 = Some t2"
    and "monthly_target t2 = monthly_target t1"
    by (cases "find (\<lambda>t. kpi_name t = kpi_key k) ts2") auto
  with Some show ?thesis
    by (simp add: process_kpi_def Let_def cong: option.case_cong if_cong)
qed

lemma example_annual_reports:
  "generateAnnualReport example_analyst [example_previous, example_current] example_targets \<noteq>
   generateAnnualReport example_analyst [example_previous, example_current]
     example_targets_other_role"
  by code_simp

lemma example_targets_other_role_erased:
  "map (\<lambda>t. t\<lparr>role := []\<rparr>) example_targets =
   map (\<lambda>t. t\<lparr>role := []\<rparr>) example_targets_other_role"
  by (simp add: example_targets_other_role_def example_targets_def)

text \<open>
  C9. The generator of action items finds a target by the metric key alone: for two
  lists of targets that differ only in the role fields of their entries it returns the
  same result. The annual report finds a target by metric key and the department of
  the analyst, and its result depends on the role fields: there are two such lists of
  targets, an analyst and records for which the two reports differ.
\<close>

theorem generateActionItems_ignores_role:
  "(map (\<lambda>t. t\<lparr>role := []\<rparr>) ts1 = map (\<lambda>t. t\<lparr>role := []\<rparr>) ts2 \<longrightarrow>
      generateActionItems c p ts1 = generateActionItems c p ts2) \<and>
   (\<exists>analyst records ts1 ts2.
      map (\<lambda>t. t\<lparr>role := []\<rparr>) ts1 = map (\<lambda>t. t\<lparr>role := []\<rparr>) ts2 \<and>
      generateAnnualReport analyst records ts1 \<noteq> generateAnnualReport analyst records ts2)"
proof (intro conjI impI)
  assume "map (\<lambda>t. t\<lparr>role := []\<rparr>) ts1 = map (\<lambda>t. t\<lparr>role := []\<rparr>) ts2"
  then have "process_kpi KPI_RECOMMENDATIONS c p ts1 acc k =
             process_kpi KPI_RECOMMENDATIONS c p ts2 acc k" for acc k
    by (intro process_kpi_target find_target_role_erased)
  then have "process_kpi KPI_RECOMMENDATIONS c p ts1 = process_kpi KPI_RECOMMENDATIONS c p ts2"
    by (intro ext)
  then show "generateActionItems c p ts1 = generateActionItems c p ts2"
    by (simp add: generateActionItems_def generateActionItemsWith_def)
next
  show "\<exists>analyst records ts1 ts2.
      map (\<lambda>t. t\<lparr>role := []\<rparr>) ts1 = map (\<lambda>t. t\<lparr>role := []\<rparr>) ts2 \<and>
      generateAnnualReport analyst records ts1 \<noteq> generateAnnualReport analyst records ts2"
    using example_annual_reports example_targets_other_role_erased by blast
qed

theorem generateActionItems_ignores_role_witness:
  "generateActionItems example_current [example_previous] example_targets =
   generateActionItems example_current [example_previous] example_targets_other_role"
  using generateActionItems_ignores_role
    [of example_targets example_targets_other_role example_current "[example_previous]",
      THEN conjunct1, THEN mp, OF example_targets_other_role_erased]
  by this

subsection \<open>The latest record\<close>

lemma dated_time: "dated r \<Longrightarrow> \<exists>t. record_time r = Num t"
  by (cases "record_time r") (simp_all add: dated_def)

lemma compare_dates_positive:
  assumes "dated x" "dated y"
  shows "js_gt (compare_dates x y) (Num 0) \<longleftrightarrow> js_lt (record_time x) (record_time y)"
proof -
  from assms obtain tx ty where "record_time x = Num tx" "record_time y = Num ty"
    by (auto dest!: dated_time)
  then show ?thesis
    by (simp add: compare_dates_def js_minus_def js_gt_def)
qed

lemma first_insert_by:
  "(case insert_by cmp x ys of [] \<Rightarrow> None | r # _ \<Rightarrow> Some r) =
     (case ys of
        [] \<Rightarrow> Some x
      | y # _ \<Rightarrow> if js_gt (cmp x y) (Num 0) then Some y else Some x)"
  by (cases ys) simp_all

lemma first_sorted_latest:
  assumes "\<forall>r\<in>set xs. dated r"
  shows "(case Array_sort compare_dates xs of [] \<Rightarrow> None | r # _ \<Rightarrow> Some r) = latest xs"
  using assms
proof (induction xs)
  case Nil
  then show ?case by (simp add: Array_sort_Nil)
next
  case (Cons x xs)
  then have IH: "(case Array_sort compare_dates xs of [] \<Rightarrow> None | r # _ \<Rightarrow> Some r) = latest xs"
    by simp
  show ?case
  proof (cases "Array_sort compare_dates xs")
    case Nil
    with IH show ?thesis
      by (simp add: Array_sort_Cons)
  next
    case (Cons y ys)
    then have "y \<in> set (Array_sort compare_dates xs)"
      by simp
    then have "y \<in> set xs"
      by (simp only: set_Array_sort)
    with Cons.prems have "dated x" "dated y"
      by simp_all
    then have "js_gt (compare_dates x y) (Num 0) \<longleftrightarrow> js_lt (record_time x) (record_time y)"
      by (rule compare_dates_positive)
    moreover from IH Cons have "latest xs = Some y"
      by simp
    ultimately show ?thesis
      using Cons by (simp add: Array_sort_Cons first_insert_by)
  qed
qed

lemma latest_mem: "latest xs = Some r \<Longrightarrow> r \<in> set xs"
  by (induction xs arbitrary: r) (auto split: option.splits if_splits)

lemma latest_maximal:
  assumes "\<forall>r\<in>set xs. dated r" "latest xs = Some m" "s \<in> set xs"
  shows "\<not> js_lt (record_time m) (record_time s)"
  using assms
proof (induction xs arbitrary: m)
  case Nil
  then show ?case by simp
next
  case (Cons x xs)
  from Cons.prems(1) have dx: "dated x" and dxs: "\<forall>r\<in>set xs. dated r"
    by simp_all
  show ?case
  proof (cases "latest xs")
    case None
    then have "xs = []"
      by (cases xs) (simp_all split: option.splits if_splits)
    with Cons.prems None dx show ?thesis
      by (auto dest!: dated_time)
  next
    case (Some l)
    then have l: "l \<in> set xs" by (rule latest_mem)
    with dxs have dl: "dated l" by simp
    have lmax: "\<not> js_lt (record_time l) (record_time s)" if "s \<in> set xs"
      using Cons.IH [OF dxs Some that] .
    from Cons.prems(3) dx dxs have ds: "dated s" by auto
    from dx dl ds obtain tx tl ts where t:
      "record_time x = Num tx" "record_time l = Num tl" "record_time s = Num ts"
      by (auto dest!: dated_time)
    show ?thesis
    proof (cases "js_lt (record_time x) (record_time l)")
      case True
      with Some Cons.prems(2) have "m = l" by simp
      with True Cons.prems(3) lmax t show ?thesis by auto
    next
      case False
      with Some Cons.prems(2) have "m = x" by simp
      with False Cons.prems(3) lmax t show ?thesis by auto
    qed
  qed
qed

lemma analyzeTrend_latest:
  assumes "\<forall>r\<in>set hs. analyst_id r = analyst_id c \<longrightarrow> dated r"
  shows "analyzeTrend k c hs =
     (let currentValue = kpi_value c k;
          previousValue =
            (case latest (filter (\<lambda>r. analyst_id r = analyst_id c) hs) of
               None \<Rightarrow> 0
             | Some previousRecord \<Rightarrow> kpi_value previousRecord k)
      in if 0 < previousValue then
           (let changePercentage =
                  Math_round
                    (js_times
                       (js_divide (Num (currentValue - previousValue)) (Num previousValue))
                       (Num 100))
            in \<lparr>trend_kpi = kpi_key k, current = currentValue, previous = previousValue,
                trend = (if js_gt changePercentage (Num 5) then ''improving''
                         else if js_lt changePercentage (Num (- 5)) then ''declining''
                         else ''stable''),
                changePercentage = changePercentage\<rparr>)
         else if 0 < currentValue then
           \<lparr>trend_kpi = kpi_key k, current = currentValue, previous = previousValue,
            trend = ''improving'', changePercentage = Num 100\<rparr>
         else
           \<lparr>trend_kpi = kpi_key k, current = currentValue, previous = previousValue,
            trend = ''stable'', changePercentage = Num 0\<rparr>)"
proof -
  have "\<forall>r\<in>set (filter (\<lambda>r. analyst_id r = analyst_id c) hs). dated r"
    using assms by simp
  then have first:
    "(case Array_sort compare_dates (filter (\<lambda>r. analyst_id r = analyst_id c) hs) of
        [] \<Rightarrow> None | r # _ \<Rightarrow> Some r) =
     latest (filter (\<lambda>r. analyst_id r = analyst_id c) hs)"
    by (rule first_sorted_latest)
  have "(case Array_sort compare_dates (filter (\<lambda>r. analyst_id r = analyst_id c) hs) of
           [] \<Rightarrow> 0 | previousRecord # _ \<Rightarrow> kpi_value previousRecord k) =
        (case latest (filter (\<lambda>r. analyst_id r = analyst_id c) hs) of
           None \<Rightarrow> 0 | Some previousRecord \<Rightarrow> kpi_value previousRecord k)"
    unfolding first [symmetric]
    by (simp split: list.splits)
  then show ?thesis
    by (simp add: analyzeTrend_def js_minus_def Let_def)
qed


subsection \<open>The error of double-precision rounding\<close>









subsection \<open>Dates of calendar records\<close>

lemma div_shift:
  fixes a d k :: int
  assumes "d \<noteq> 0"
  shows "(a - k * d) div d = a div d - k"
  using div_mult_self1 [OF assms, of a "- k"] by simp

lemma div_step:
  fixes a d :: int
  assumes "0 < d"
  shows "a div d = (a - 1) div d + (if a mod d = 0 then 1 else 0)"
proof (cases "a mod d = 0")
  case True
  have "a - 1 = d * (a div d - 1) + (d - 1)"
    using mult_div_mod_eq [of d a] True by (simp add: algebra_simps)
  with assms have "(a - 1) div d = a div d - 1"
    by (intro int_div_pos_eq [of "a - 1" d "a div d - 1" "d - 1"]) simp_all
  with True show ?thesis by simp
next
  case False
  from assms have "0 \<le> a mod d"
    by (rule pos_mod_sign)
  with False have "0 < a mod d"
    by simp
  moreover have "a mod d < d"
    using assms by simp
  moreover have "a - 1 = d * (a div d) + (a mod d - 1)"
    using mult_div_mod_eq [of d a] by simp
  ultimately have "(a - 1) div d = a div d"
    by (intro int_div_pos_eq [of "a - 1" d "a div d" "a mod d - 1"]) simp_all
  with False show ?thesis by simp
qed

lemma DayFromYear_step: "DayFromYear y + 365 \<le> DayFromYear (y + 1)"
proof -
  have old: "(y - 1969) div 4 = (y - 1) div 4 - 492" "(y - 1901) div 100 = (y - 1) div 100 - 19"
    "(y - 1601) div 400 = (y - 1) div 400 - 4"
    using div_shift [of 4 "y - 1" 492] div_shift [of 100 "y - 1" 19]
      div_shift [of 400 "y - 1" 4]
    by simp_all
  have new: "(y + 1 - 1969) div 4 = y div 4 - 492" "(y + 1 - 1901) div 100 = y div 100 - 19"
    "(y + 1 - 1601) div 400 = y div 400 - 4"
    using div_shift [of 4 y 492] div_shift [of 100 y 19] div_shift [of 400 y 4]
    by simp_all
  have four: "y div 4 = (y - 1) div 4 + (if y mod 4 = 0 then 1 else 0)"
    by (rule div_step) simp
  have hundred: "y div 100 = (y - 1) div 100 + (if y mod 100 = 0 then 1 else 0)"
    by (rule div_step) simp
  have "(y - 1) div 400 \<le> y div 400"
    by (rule zdiv_mono1) simp_all
  moreover have "y mod 4 = 0" if "y mod 100 = 0"
  proof -
    from that have "100 dvd y" by (simp add: mod_eq_0_iff_dvd)
    moreover have "(4::int) dvd 100" by simp
    ultimately have "4 dvd y" by (metis dvd_trans)
    then show ?thesis by (simp add: mod_eq_0_iff_dvd)
  qed
  ultimately show ?thesis
    unfolding DayFromYear_def old new four hundred by auto
qed

lemma DayFromYear_less:
  assumes "y1 < y2"
  shows "DayFromYear y1 + 365 \<le> DayFromYear y2"
proof -
  have "DayFromYear y1 + 365 \<le> DayFromYear (y1 + 1 + int n)" for n
  proof (induction n)
    case 0
    show ?case using DayFromYear_step [of y1] by simp
  next
    case (Suc n)
    have "DayFromYear (y1 + 1 + int n) \<le> DayFromYear (y1 + 1 + int n + 1)"
      using DayFromYear_step [of "y1 + 1 + int n"] by simp
    with Suc show ?case by (simp add: add.assoc add.commute)
  qed
  from this [of "nat (y2 - y1 - 1)"] assms show ?thesis by simp
qed

lemma MakeDay_month:
  assumes "0 \<le> i" "i \<le> 11"
  shows "MakeDay y i =
           DayFromYear y + days_before_month ! nat i
           + (if InLeapYear y \<and> 2 \<le> i then 1 else 0)"
  using assms by (auto simp: MakeDay_def Let_def div_pos_pos_trivial)

lemma month_cases:
  assumes "0 \<le> (i::int)" "i \<le> 11"
  shows "i = 0 \<or> i = 1 \<or> i = 2 \<or> i = 3 \<or> i = 4 \<or> i = 5 \<or> i = 6 \<or> i = 7 \<or> i = 8 \<or>
         i = 9 \<or> i = 10 \<or> i = 11"
  using assms by arith

lemma days_before_month_range:
  assumes "0 \<le> i" "i \<le> 11"
  shows "0 \<le> days_before_month ! nat i" "days_before_month ! nat i \<le> 334"
  using month_cases [OF assms] by (auto simp: days_before_month_def)

lemma MakeDay_bounds:
  assumes "0 \<le> i" "i \<le> 11"
  shows "DayFromYear y \<le> MakeDay y i" "MakeDay y i \<le> DayFromYear y + 335"
  using days_before_month_range [OF assms]
  unfolding MakeDay_month [OF assms] by simp_all

lemma days_before_month_step:
  assumes "0 \<le> i" "i \<le> 10"
  shows "days_before_month ! nat i + 28 \<le> days_before_month ! nat (i + 1)"
proof -
  from assms have "i = 0 \<or> i = 1 \<or> i = 2 \<or> i = 3 \<or> i = 4 \<or> i = 5 \<or> i = 6 \<or> i = 7 \<or>
      i = 8 \<or> i = 9 \<or> i = 10"
    by arith
  then show ?thesis
    by (auto simp: days_before_month_def)
qed

lemma days_before_month_less:
  assumes "0 \<le> i" "i < j" "j \<le> 11"
  shows "days_before_month ! nat i + 28 \<le> days_before_month ! nat j"
proof -
  have "i + 1 + int n \<le> 11 \<Longrightarrow>
        days_before_month ! nat i + 28 \<le> days_before_month ! nat (i + 1 + int n)" for n
  proof (induction n)
    case 0
    with assms(1) days_before_month_step [of i] show ?case by simp
  next
    case (Suc n)
    then have "days_before_month ! nat i + 28 \<le> days_before_month ! nat (i + 1 + int n)"
      by simp
    moreover from Suc.prems assms(1)
    have "days_before_month ! nat (i + 1 + int n) + 28 \<le>
          days_before_month ! nat (i + 1 + int n + 1)"
      by (intro days_before_month_step) simp_all
    ultimately show ?case
      by (simp add: add.assoc add.commute)
  qed
  from this [of "nat (j - i - 1)"] assms show ?thesis by simp
qed

lemma MakeDay_month_less:
  assumes "0 \<le> i" "i < j" "j \<le> 11"
  shows "MakeDay y i < MakeDay y j"
proof -
  from assms have i: "0 \<le> i" "i \<le> 11" and j: "0 \<le> j" "j \<le> 11"
    by simp_all
  from days_before_month_less [OF assms] assms(2) show ?thesis
    unfolding MakeDay_month [OF i] MakeDay_month [OF j] by simp
qed

lemma MakeDay_less:
  assumes "0 \<le> i1" "i1 \<le> 11" "0 \<le> i2" "i2 \<le> 11"
    and "y1 < y2 \<or> y1 = y2 \<and> i1 < i2"
  shows "MakeDay y1 i1 < MakeDay y2 i2"
proof (cases "y1 < y2")
  case True
  then have "DayFromYear y1 + 365 \<le> DayFromYear y2"
    by (rule DayFromYear_less)
  with MakeDay_bounds(2) [OF assms(1,2), of y1] MakeDay_bounds(1) [OF assms(3,4), of y2]
  show ?thesis by simp
next
  case False
  with assms(5) have "y1 = y2" "i1 < i2" by simp_all
  with assms(1,4) show ?thesis by (simp add: MakeDay_month_less)
qed

lemma DayFromYear_mono:
  assumes "y1 \<le> y2"
  shows "DayFromYear y1 \<le> DayFromYear y2"
proof (cases "y1 = y2")
  case True
  then show ?thesis by simp
next
  case False
  with assms have "y1 < y2" by simp
  then have "DayFromYear y1 + 365 \<le> DayFromYear y2"
    by (rule DayFromYear_less)
  then show ?thesis by simp
qed

lemma DayFromYear_range:
  assumes "100 \<le> y" "y \<le> 275000"
  shows "- 683003 \<le> DayFromYear y" "DayFromYear y \<le> 99722160"
proof -
  have "DayFromYear 100 = - 683003" "DayFromYear 275000 = 99722160"
    by (simp_all add: DayFromYear_def)
  with DayFromYear_mono [OF assms(1)] DayFromYear_mono [OF assms(2)]
  show "- 683003 \<le> DayFromYear y" "DayFromYear y \<le> 99722160"
    by simp_all
qed

lemma calendar_time:
  assumes "calendar r"
  shows "record_time r = Num (MakeDay (year r) (month_number r - 1) * 86400000)"
proof -
  from assms obtain m where m: "parseInt (month r) = Num m" "month_number r = m"
    by (cases "parseInt (month r)") (auto simp: calendar_def month_number_def)
  with assms have range: "0 \<le> m - 1" "m - 1 \<le> 11" "100 \<le> year r" "year r \<le> 275000"
    by (simp_all add: calendar_def)
  from MakeDay_bounds [OF range(1,2), of "year r"] DayFromYear_range [OF range(3,4)]
  have "\<bar>MakeDay (year r) (m - 1) * 86400000\<bar> \<le> 8640000000000000"
    by simp
  with m range show ?thesis
    by (simp add: record_time_def js_minus_def Let_def)
qed

lemma calendar_dated: "calendar r \<Longrightarrow> dated r"
  by (simp add: dated_def calendar_time)

text \<open>
  The time of a calendar record orders by year and then by month: a record of an earlier
  (year, month) has the smaller time.
\<close>

lemma calendar_time_less:
  assumes "calendar r" "calendar s"
  shows "js_lt (record_time r) (record_time s) \<longleftrightarrow>
           year r < year s \<or> year r = year s \<and> month_number r < month_number s"
proof -
  from assms have range:
    "0 \<le> month_number r - 1" "month_number r - 1 \<le> 11"
    "0 \<le> month_number s - 1" "month_number s - 1 \<le> 11"
    by (simp_all add: calendar_def)
  have less: "MakeDay (year r) (month_number r - 1) < MakeDay (year s) (month_number s - 1)"
    if "year r < year s \<or> year r = year s \<and> month_number r < month_number s"
    using that by (intro MakeDay_less range) simp
  have greater: "MakeDay (year s) (month_number s - 1) \<le> MakeDay (year r) (month_number r - 1)"
    if "\<not> (year r < year s \<or> year r = year s \<and> month_number r < month_number s)"
  proof (cases "year r = year s \<and> month_number r = month_number s")
    case True
    then show ?thesis by simp
  next
    case False
    with that have "year s < year r \<or> year s = year r \<and> month_number s - 1 < month_number r - 1"
      by auto
    then have "MakeDay (year s) (month_number s - 1) < MakeDay (year r) (month_number r - 1)"
      by (intro MakeDay_less range)
    then show ?thesis by simp
  qed
  show ?thesis
  proof (cases "year r < year s \<or> year r = year s \<and> month_number r < month_number s")
    case True
    from less [OF True] True show ?thesis
      by (simp add: calendar_time [OF assms(1)] calendar_time [OF assms(2)])
  next
    case False
    from greater [OF False] False show ?thesis
      by (simp add: calendar_time [OF assms(1)] calendar_time [OF assms(2)])
  qed
qed

text \<open>
  Hence the latest record of a list of calendar records is one of the latest
  (year, month).
\<close>

lemma latest_calendar:
  assumes "\<forall>r\<in>set xs. calendar r" "latest xs = Some m" "s \<in> set xs"
  shows "year s < year m \<or> year s = year m \<and> month_number s \<le> month_number m"
proof -
  from assms(1) have d: "\<forall>r\<in>set xs. dated r"
    by (simp add: calendar_dated)
  from d assms(2,3) have "\<not> js_lt (record_time m) (record_time s)"
    by (rule latest_maximal)
  moreover from assms(2) have "m \<in> set xs"
    by (rule latest_mem)
  with assms(1,3) have "calendar m" "calendar s"
    by simp_all
  ultimately have
    "\<not> (year m < year s \<or> year m = year s \<and> month_number m < month_number s)"
    by (simp add: calendar_time_less)
  then show ?thesis by auto
qed

subsection \<open>The trend against the latest prior record\<close>











text \<open>The values of the specification for the dead zone and for a missing history.\<close>

lemma analyzeTrend_dead_zone_examples:
  "trend (analyzeTrend Outreaches (example_current\<lparr>outreaches := 104\<rparr>) [example_previous]) =
     ''stable''"
  "changePercentage
     (analyzeTrend Outreaches (example_current\<lparr>outreaches := 106\<rparr>) [example_previous]) = Num 6"
  "trend (analyzeTrend Outreaches (example_current\<lparr>outreaches := 106\<rparr>) [example_previous]) =
     ''improving''"
  "changePercentage
     (analyzeTrend Outreaches (example_current\<lparr>outreaches := 94\<rparr>) [example_previous]) =
     Num (- 6)"
  "trend (analyzeTrend Outreaches (example_current\<lparr>outreaches := 94\<rparr>) [example_previous]) =
     ''declining''"
  "changePercentage
     (analyzeTrend Outreaches (example_current\<lparr>outreaches := 95\<rparr>) [example_previous]) =
     Num (- 5)"
  "trend (analyzeTrend Outreaches (example_current\<lparr>outreaches := 95\<rparr>) [example_previous]) =
     ''stable''"
  "trend (analyzeTrend Outreaches (example_current\<lparr>outreaches := 0\<rparr>) []) = ''stable''"
  "changePercentage (analyzeTrend Outreaches (example_current\<lparr>outreaches := 0\<rparr>) []) = Num 0"
  "trend (analyzeTrend Outreaches (example_current\<lparr>outreaches := 50\<rparr>) []) = ''improving''"
  "changePercentage (analyzeTrend Outreaches (example_current\<lparr>outreaches := 50\<rparr>) []) =
     Num 100"
  by code_simp+

subsection \<open>The current record among the historical records\<close>

lemma latest_removeAll:
  assumes "\<forall>r\<in>set xs. dated r" "latest xs = Some r" "r \<noteq> c"
  shows "latest (removeAll c xs) = Some r"
  using assms
proof (induction xs arbitrary: r)
  case Nil
  then show ?case by simp
next
  case (Cons x xs)
  from Cons.prems(1) have dx: "dated x" and dxs: "\<forall>r\<in>set xs. dated r"
    by simp_all
  show ?case
  proof (cases "latest xs")
    case None
    then have "xs = []"
      by (cases xs) (simp_all split: option.splits if_splits)
    with Cons.prems show ?thesis by auto
  next
    case (Some l)
    show ?thesis
    proof (cases "l = c")
      case False
      with Cons.IH [OF dxs Some] have rest: "latest (removeAll c xs) = Some l"
        by simp
      show ?thesis
      proof (cases "x = c")
        case True
        with Cons.prems(2,3) Some rest show ?thesis
          by (simp split: if_splits)
      next
        case False
        with Cons.prems(2) Some rest show ?thesis
          by simp
      qed
    next
      case True
      with Some have lc: "latest xs = Some c" by simp
      with Cons.prems(2,3) have r: "r = x" and nlt: "\<not> js_lt (record_time x) (record_time c)"
        by (simp_all split: if_splits)
      with Cons.prems(3) have xc: "x \<noteq> c" by simp
      from lc have "c \<in> set xs" by (rule latest_mem)
      with dxs have dc: "dated c" by simp
      have "latest (x # removeAll c xs) = Some x"
      proof (cases "latest (removeAll c xs)")
        case None
        then show ?thesis by simp
      next
        case (Some s)
        then have "s \<in> set (removeAll c xs)" by (rule latest_mem)
        then have s: "s \<in> set xs" by simp
        with dxs have ds: "dated s" by simp
        from dxs lc s have "\<not> js_lt (record_time c) (record_time s)"
          by (rule latest_maximal)
        moreover from dx dc ds obtain tx tc ts where
          "record_time x = Num tx" "record_time c = Num tc" "record_time s = Num ts"
          by (auto dest!: dated_time)
        ultimately have "\<not> js_lt (record_time x) (record_time s)"
          using nlt by simp
        with Some show ?thesis by simp
      qed
      with r xc show ?thesis by simp
    qed
  qed
qed

lemma filter_removeAll: "filter P (removeAll c xs) = removeAll c (filter P xs)"
  by (induction xs) auto

lemma latest_None: "latest xs = None \<longleftrightarrow> xs = []"
  by (cases xs) (simp_all split: option.splits)

lemma analyzeTrend_cong_latest:
  assumes "\<forall>r\<in>set hs. analyst_id r = analyst_id c \<longrightarrow> dated r"
    and "\<forall>r\<in>set hs'. analyst_id r = analyst_id c \<longrightarrow> dated r"
    and "latest (filter (\<lambda>r. analyst_id r = analyst_id c) hs) =
         latest (filter (\<lambda>r. analyst_id r = analyst_id c) hs')"
  shows "analyzeTrend k c hs = analyzeTrend k c hs'"
  by (simp only: analyzeTrend_latest [OF assms(1)] analyzeTrend_latest [OF assms(2)] assms(3))

text \<open>
  C6, as the code has it. \<open>analyzeTrend\<close> considers only the historical records of the
  member of the current record: the result is that of the input without the records of
  the other members. It does not remove the current record from them. With dated
  records, the result is that of the input without the current record whenever another
  record than the current one is the latest of the member, or there is none; when the
  current record is itself the latest, it is the record compared with, and the previous
  value of the result is the current value.
\<close>

theorem analyzeTrend_same_member:
  "analyzeTrend k c hs = analyzeTrend k c (filter (\<lambda>r. analyst_id r = analyst_id c) hs) \<and>
   ((\<forall>r\<in>set hs. analyst_id r = analyst_id c \<longrightarrow> dated r) \<longrightarrow>
      (latest (filter (\<lambda>r. analyst_id r = analyst_id c) hs) \<noteq> Some c \<longrightarrow>
         analyzeTrend k c hs = analyzeTrend k c (removeAll c hs)) \<and>
      (latest (filter (\<lambda>r. analyst_id r = analyst_id c) hs) = Some c \<longrightarrow>
         previous (analyzeTrend k c hs) = current (analyzeTrend k c hs)))"
proof (intro conjI impI)
  show "analyzeTrend k c hs = analyzeTrend k c (filter (\<lambda>r. analyst_id r = analyst_id c) hs)"
    by (simp add: analyzeTrend_def)
next
  assume d: "\<forall>r\<in>set hs. analyst_id r = analyst_id c \<longrightarrow> dated r"
    and other: "latest (filter (\<lambda>r. analyst_id r = analyst_id c) hs) \<noteq> Some c"
  let ?same = "filter (\<lambda>r. analyst_id r = analyst_id c) hs"
  from d have ds: "\<forall>r\<in>set ?same. dated r" by simp
  have "latest (removeAll c ?same) = latest ?same"
  proof (cases "latest ?same")
    case None
    then show ?thesis by (simp add: latest_None)
  next
    case (Some r)
    with other have "r \<noteq> c" by auto
    with ds Some show ?thesis by (simp add: latest_removeAll)
  qed
  then have "latest ?same = latest (filter (\<lambda>r. analyst_id r = analyst_id c) (removeAll c hs))"
    by (simp add: filter_removeAll)
  moreover from d have "\<forall>r\<in>set (removeAll c hs). analyst_id r = analyst_id c \<longrightarrow> dated r"
    by simp
  ultimately show "analyzeTrend k c hs = analyzeTrend k c (removeAll c hs)"
    using d by (intro analyzeTrend_cong_latest)
next
  assume d: "\<forall>r\<in>set hs. analyst_id r = analyst_id c \<longrightarrow> dated r"
    and self: "latest (filter (\<lambda>r. analyst_id r = analyst_id c) hs) = Some c"
  show "previous (analyzeTrend k c hs) = current (analyzeTrend k c hs)"
    unfolding analyzeTrend_latest [OF d] self by (simp add: Let_def)
qed

text \<open>
  C6, as the specification has it, fails: the record of September among its own
  history is compared with itself, and without it with the record of August.
\<close>

theorem analyzeTrend_keeps_current_record:
  "analyzeTrend Outreaches example_current [example_current, example_previous] \<noteq>
   analyzeTrend Outreaches example_current
     (removeAll example_current [example_current, example_previous])"
  by code_simp

lemma example_history_dated:
  "\<forall>r\<in>set [example_previous, example_current].
     analyst_id r = analyst_id example_previous \<longrightarrow> dated r"
  by code_simp

lemma example_history_latest:
  "latest (filter (\<lambda>r. analyst_id r = analyst_id example_previous)
     [example_previous, example_current]) \<noteq> Some example_previous"
  by code_simp

theorem analyzeTrend_same_member_witness:
  "analyzeTrend Outreaches example_previous [example_previous, example_current] =
   analyzeTrend Outreaches example_previous
     (removeAll example_previous [example_previous, example_current])"
  using analyzeTrend_same_member
    [of Outreaches example_previous "[example_previous, example_current]",
      THEN conjunct2, THEN mp, OF example_history_dated,
      THEN conjunct1, THEN mp, OF example_history_latest]
  by this

subsection \<open>The description of an item\<close>

lemma analyzeTrend_change_finite: "\<exists>n. changePercentage (analyzeTrend k c p) = Num n"
  by (simp add: analyzeTrend_def Let_def js_minus_def)

lemma signed_change:
  "(if js_gt (Num n) (Num 0) then ''+'' else []) @ toString (Num n) =
   (if 0 < n then ''+'' else if n < 0 then ''-'' else []) @ show_nat (nat \<bar>n\<bar>)"
  by (simp add: js_gt_def)

text \<open>
  C7, as the code has it. The description of every item ends with the change percentage
  of the trend of its metric between parentheses: with a \<open>+\<close> sign when it is positive,
  with a \<open>-\<close> sign when it is negative, and with no sign when it is 0.
\<close>

theorem generateActionItems_description:
  "\<exists>items. generateActionItems c p ts = Inr items \<and>
     (\<forall>item\<in>set items. \<exists>k\<in>set kpiNames. \<exists>t n.
        find (\<lambda>t. kpi_name t = kpi_key k) ts = Some t \<and> kpi item = kpi_key k \<and>
        changePercentage (analyzeTrend k c p) = Num n \<and>
        description item =
          ''Current: '' @ toString (Num (kpi_value c k))
          @ '' | Target: '' @ toString (Num (monthly_target t))
          @ '' | Achievement: '' @ toString (achievement (kpi_value c k) (monthly_target t))
          @ ''% | Trend: '' @ trend (analyzeTrend k c p)
          @ '' ('' @ (if 0 < n then ''+'' else if n < 0 then ''-'' else [])
          @ show_nat (nat \<bar>n\<bar>) @ ''%)'')"
proof -
  obtain items where items: "generateActionItems c p ts = Inr items"
    by (simp add: generateActionItems_sorted_emitted)
  have "\<exists>k\<in>set kpiNames. \<exists>t n.
        find (\<lambda>t. kpi_name t = kpi_key k) ts = Some t \<and> kpi item = kpi_key k \<and>
        changePercentage (analyzeTrend k c p) = Num n \<and>
        description item =
          ''Current: '' @ toString (Num (kpi_value c k))
          @ '' | Target: '' @ toString (Num (monthly_target t))
          @ '' | Achievement: '' @ toString (achievement (kpi_value c k) (monthly_target t))
          @ ''% | Trend: '' @ trend (analyzeTrend k c p)
          @ '' ('' @ (if 0 < n then ''+'' else if n < 0 then ''-'' else [])
          @ show_nat (nat \<bar>n\<bar>) @ ''%)''"
    if "item \<in> set items" for item
  proof -
    from items that obtain k where k: "k \<in> set kpiNames"
      and "item \<in> set (emitted KPI_RECOMMENDATIONS c p ts k)"
      by (rule generateActionItems_item)
    then obtain t where t: "find (\<lambda>t. kpi_name t = kpi_key k) ts = Some t"
      and item: "kpi item = kpi_key k"
        "description item =
           describe (kpi_value c k) (monthly_target t)
             (achievement (kpi_value c k) (monthly_target t)) (analyzeTrend k c p)"
      by (elim emitted_item) simp
    obtain n where n: "changePercentage (analyzeTrend k c p) = Num n"
      using analyzeTrend_change_finite by blast
    have "description item =
          ''Current: '' @ toString (Num (kpi_value c k))
          @ '' | Target: '' @ toString (Num (monthly_target t))
          @ '' | Achievement: '' @ toString (achievement (kpi_value c k) (monthly_target t))
          @ ''% | Trend: '' @ trend (analyzeTrend k c p)
          @ '' ('' @ ((if js_gt (Num n) (Num 0) then ''+'' else []) @ toString (Num n))
          @ ''%)''"
      unfolding item(2) describe_def n by (simp only: append_assoc)
    then have "description item =
          ''Current: '' @ toString (Num (kpi_value c k))
          @ '' | Target: '' @ toString (Num (monthly_target t))
          @ '' | Achievement: '' @ toString (achievement (kpi_value c k) (monthly_target t))
          @ ''% | Trend: '' @ trend (analyzeTrend k c p)
          @ '' ('' @ (if 0 < n then ''+'' else if n < 0 then ''-'' else [])
          @ show_nat (nat \<bar>n\<bar>) @ ''%)''"
      unfolding signed_change by (simp only: append_assoc)
    with k t item(1) n show ?thesis
      by blast
  qed
  with items show ?thesis by blast
qed

lemma example_first_output:
  "generateActionItems example_previous [] example_targets =
     Inr [\<lparr>item_id = ''outreaches-r1'', kpi = ''outreaches'', severity = ''info'',
            title = cell_title outreaches_target,
            description =
              ''Current: 100 | Target: 100 | Achievement: 100% | Trend: improving (+100%)'',
            recommendations = cell_recommendations outreaches_target, priority = 3\<rparr>,
          \<lparr>item_id = ''live_links-r1'', kpi = ''live_links'', severity = ''success'',
            title = cell_title live_links_good,
            description =
              ''Current: 20 | Target: 10 | Achievement: 200% | Trend: improving (+100%)'',
            recommendations = cell_recommendations live_links_good, priority = 4\<rparr>]"
  by code_simp

theorem generateActionItems_description_witness:
  "\<exists>items. generateActionItems example_previous [] example_targets = Inr items \<and>
     description (hd items) =
       ''Current: 100 | Target: 100 | Achievement: 100% | Trend: improving (+100%)'' \<and>
     (\<exists>k\<in>set kpiNames. \<exists>t n.
        find (\<lambda>t. kpi_name t = kpi_key k) example_targets = Some t \<and>
        kpi (hd items) = kpi_key k \<and>
        changePercentage (analyzeTrend k example_previous []) = Num n \<and>
        description (hd items) =
          ''Current: '' @ toString (Num (kpi_value example_previous k))
          @ '' | Target: '' @ toString (Num (monthly_target t))
          @ '' | Achievement: ''
          @ toString (achievement (kpi_value example_previous k) (monthly_target t))
          @ ''% | Trend: '' @ trend (analyzeTrend k example_previous [])
          @ '' ('' @ (if 0 < n then ''+'' else if n < 0 then ''-'' else [])
          @ show_nat (nat \<bar>n\<bar>) @ ''%)'')"
proof -
  from generateActionItems_description [of example_previous "[]" example_targets]
  obtain items where
    items: "generateActionItems example_previous [] example_targets = Inr items"
    and each: "\<forall>item\<in>set items. \<exists>k\<in>set kpiNames. \<exists>t n.
        find (\<lambda>t. kpi_name t = kpi_key k) example_targets = Some t \<and>
        kpi item = kpi_key k \<and>
        changePercentage (analyzeTrend k example_previous []) = Num n \<and>
        description item =
          ''Current: '' @ toString (Num (kpi_value example_previous k))
          @ '' | Target: '' @ toString (Num (monthly_target t))
          @ '' | Achievement: ''
          @ toString (achievement (kpi_value example_previous k) (monthly_target t))
          @ ''% | Trend: '' @ trend (analyzeTrend k example_previous [])
          @ '' ('' @ (if 0 < n then ''+'' else if n < 0 then ''-'' else [])
          @ show_nat (nat \<bar>n\<bar>) @ ''%)''"
    by (elim exE conjE)
  from items have first: "hd items \<in> set items"
    and "description (hd items) =
       ''Current: 100 | Target: 100 | Achievement: 100% | Trend: improving (+100%)''"
    by (auto simp: example_first_output)
  with each items show ?thesis
    by (intro exI conjI) (assumption, assumption, elim ballE [of _ _ "hd items"], simp_all)
qed

text \<open>
  C7, as the specification has it, fails: for a change of 0 percent the description
  carries \<open>(0%)\<close>, with no sign.
\<close>

theorem description_zero_change_unsigned:
  "changePercentage (analyzeTrend Outreaches example_previous [example_steady]) = Num 0 \<and>
   map description
     (projr (generateActionItems example_previous [example_steady] example_targets)) =
     [''Current: 100 | Target: 100 | Achievement: 100% | Trend: stable (0%)'',
      ''Current: 20 | Target: 10 | Achievement: 200% | Trend: stable (0%)'']"
  by code_simp

subsection \<open>A monthly target of 0\<close>

text \<open>
  C5 at a target of 0: the statistics leave the metric out, but the generator divides
  by the target and returns an item for the metric, of category Good.
\<close>

theorem generateActionItems_zero_target:
  "total (getPerformanceCategoryStats [example_current] example_zero_targets) = 0 \<and>
   achievement (kpi_value example_current Outreaches) 0 = Infinity \<and>
   generateActionItems example_current [] example_zero_targets =
     Inr [\<lparr>item_id = ''outreaches-r2'', kpi = ''outreaches'', severity = ''success'',
            title = cell_title outreaches_good,
            description =
              ''Current: 90 | Target: 0 | Achievement: Infinity% | Trend: improving (+100%)'',
            recommendations = cell_recommendations outreaches_good, priority = 4\<rparr>]"
  by code_simp

end
